theory Spec2Isabelle
  imports Complex_Main "HOL-Library.AList"
begin

section \<open>Errors\<close>

text \<open>
  Every error return of the modelled Go code is a value of this type. The constructors
  follow the registered errors the code wraps; the formatted message of a wrapped error is
  replaced by the data it is formatted from.
  \<^item> \<open>OrmNotFound\<close>: \<open>ormerrors.NotFound\<close>, returned by \<open>Get\<close> and \<open>Update\<close> of a table;
  \<^item> \<open>ErrInvalidRequest\<close>: \<open>sdkerrors.ErrInvalidRequest.Wrap(f)\<close>;
  \<^item> \<open>ErrInsufficientCredits\<close>: \<open>ecocredit.ErrInsufficientCredits.Wrapf\<close>;
  \<^item> \<open>InvalidAmount\<close>, \<open>PrecisionExceeded\<close>, \<open>InsufficientBalance\<close>: the failure kinds of the
    decimal engine;
  \<^item> \<open>ErrInvalidAddress\<close>: a failed \<open>sdk.AccAddressFromBech32\<close>.
\<close>

datatype error =
    OrmNotFound
  | ErrInvalidRequest string
  | ErrInsufficientCredits string
  | InvalidAmount
  | PrecisionExceeded
  | InsufficientBalance
  | ErrInvalidAddress

section \<open>Decimal engine\<close>

text \<open>
  Modelled from the spec: the package \<open>types/math\<close> (type \<open>Dec\<close> with \<open>NewDecFromString\<close>,
  \<open>NewNonNegativeDecFromString\<close>, \<open>NewNonNegativeFixedDecFromString\<close>, \<open>Add\<close>, \<open>Sub\<close>,
  \<open>SafeSubBalance\<close>, \<open>SafeAddBalance\<close>, \<open>Cmp\<close>, \<open>IsZero\<close>, \<open>String\<close>) is not part of the
  sources at hand. The spec describes it as exact fixed-point arithmetic on base-10 strings
  without exponent notation: a value is an integer coefficient together with its number of
  fractional digits, parsing rejects what is not a well-formed number (\<open>InvalidAmount\<close>),
  the non-negative parsers reject a negative number (\<open>InvalidAmount\<close>), the fixed parser
  rejects more fractional digits than the precision (\<open>PrecisionExceeded\<close>), addition is
  exact, and \<open>SafeSubBalance\<close> fails with \<open>InsufficientBalance\<close> when the result would be
  negative. \<open>Sub\<close>, of which the spec says nothing, is taken to be the exact subtraction
  without that check of the sign, which is what \<open>SafeSubBalance\<close> adds to it; likewise
  \<open>SafeAddBalance\<close> is the exact addition with the check of the sign. A string is printed
  with as many fractional digits as the value carries, so that \<open>10.5\<close> is read and printed
  back as \<open>10.5\<close>.
\<close>

record Dec =
  coeff :: int
  scale :: nat

definition dec_val :: "Dec \<Rightarrow> rat" where
  "dec_val d = of_int (coeff d) / 10 ^ scale d"

definition is_digit :: "char \<Rightarrow> bool" where
  "is_digit c = (c \<in> set ''0123456789'')"

definition digit_val :: "char \<Rightarrow> nat" where
  "digit_val c = length (takeWhile (\<lambda>d. d \<noteq> c) ''0123456789'')"

definition digit_char :: "nat \<Rightarrow> char" where
  "digit_char n = ''0123456789'' ! (n mod 10)"

definition digits_val :: "string \<Rightarrow> nat" where
  "digits_val ds = foldl (\<lambda>a c. 10 * a + digit_val c) 0 ds"

fun digits_of_nat :: "nat \<Rightarrow> string" where
  "digits_of_nat n =
     (if n < 10 then [digit_char n] else digits_of_nat (n div 10) @ [digit_char (n mod 10)])"

declare digits_of_nat.simps [simp del]

definition parse_unsigned :: "string \<Rightarrow> Dec option" where
  "parse_unsigned s =
     (let ip = takeWhile is_digit s; rest = dropWhile is_digit s in
      if ip = [] then None
      else (case rest of
              [] \<Rightarrow> Some \<lparr>coeff = int (digits_val ip), scale = 0\<rparr>
            | c # fp \<Rightarrow>
                if c = CHR ''.'' \<and> fp \<noteq> [] \<and> list_all is_digit fp
                then Some \<lparr>coeff = int (digits_val (ip @ fp)), scale = length fp\<rparr>
                else None))"

definition NewDecFromString :: "string \<Rightarrow> error + Dec" where
  "NewDecFromString s =
     (case s of
        [] \<Rightarrow> Inl InvalidAmount
      | c # r \<Rightarrow>
          if c = CHR ''-''
          then (case parse_unsigned r of
                  None \<Rightarrow> Inl InvalidAmount
                | Some d \<Rightarrow> Inr (d\<lparr>coeff := - coeff d\<rparr>))
          else (case parse_unsigned s of
                  None \<Rightarrow> Inl InvalidAmount
                | Some d \<Rightarrow> Inr d))"

definition IsNegative :: "Dec \<Rightarrow> bool" where
  "IsNegative d = (coeff d < 0)"

definition IsZero :: "Dec \<Rightarrow> bool" where
  "IsZero d = (coeff d = 0)"

definition NewNonNegativeDecFromString :: "string \<Rightarrow> error + Dec" where
  "NewNonNegativeDecFromString s =
     (case NewDecFromString s of
        Inl e \<Rightarrow> Inl e
      | Inr d \<Rightarrow> if IsNegative d then Inl InvalidAmount else Inr d)"

definition NewNonNegativeFixedDecFromString :: "string \<Rightarrow> nat \<Rightarrow> error + Dec" where
  "NewNonNegativeFixedDecFromString s p =
     (case NewNonNegativeDecFromString s of
        Inl e \<Rightarrow> Inl e
      | Inr d \<Rightarrow> if scale d > p then Inl PrecisionExceeded else Inr d)"

definition NewDecFromInt64 :: "int \<Rightarrow> Dec" where
  "NewDecFromInt64 i = \<lparr>coeff = i, scale = 0\<rparr>"

definition rescale :: "Dec \<Rightarrow> nat \<Rightarrow> int" where
  "rescale d k = coeff d * 10 ^ (k - scale d)"

definition Add :: "Dec \<Rightarrow> Dec \<Rightarrow> error + Dec" where
  "Add x y =
     (let k = max (scale x) (scale y)
      in Inr \<lparr>coeff = rescale x k + rescale y k, scale = k\<rparr>)"

definition Sub :: "Dec \<Rightarrow> Dec \<Rightarrow> error + Dec" where
  "Sub x y =
     (let k = max (scale x) (scale y)
      in Inr \<lparr>coeff = rescale x k - rescale y k, scale = k\<rparr>)"

definition SafeSubBalance :: "Dec \<Rightarrow> Dec \<Rightarrow> error + Dec" where
  "SafeSubBalance x y =
     (case Sub x y of
        Inl e \<Rightarrow> Inl e
      | Inr z \<Rightarrow> if IsNegative z then Inl InsufficientBalance else Inr z)"

definition SafeAddBalance :: "Dec \<Rightarrow> Dec \<Rightarrow> error + Dec" where
  "SafeAddBalance x y =
     (case Add x y of
        Inl e \<Rightarrow> Inl e
      | Inr z \<Rightarrow> if IsNegative z then Inl InsufficientBalance else Inr z)"

datatype ordering = LessThan | EqualTo | GreaterThan

definition Cmp :: "Dec \<Rightarrow> Dec \<Rightarrow> ordering" where
  "Cmp x y =
     (let k = max (scale x) (scale y); a = rescale x k; b = rescale y k
      in if a < b then LessThan else if a = b then EqualTo else GreaterThan)"

definition fixed_text :: "nat \<Rightarrow> nat \<Rightarrow> string" where
  "fixed_text c k =
     (let ds = digits_of_nat c;
          padded = replicate (Suc k - length ds) (CHR ''0'') @ ds;
          n = length padded - k
      in take n padded @ (if k = 0 then [] else CHR ''.'' # drop n padded))"

definition String :: "Dec \<Rightarrow> string" where
  "String d =
     (if coeff d < 0 then CHR ''-'' # fixed_text (nat \<bar>coeff d\<bar>) (scale d)
      else fixed_text (nat \<bar>coeff d\<bar>) (scale d))"

text \<open>The value of an amount field at rest: the number its string denotes, zero when the
  string is empty or not a number (the genesis validator reads an empty field as zero).\<close>

definition amt_val :: "string \<Rightarrow> rat" where
  "amt_val s = (case NewDecFromString s of Inl e \<Rightarrow> 0 | Inr d \<Rightarrow> dec_val d)"

section \<open>The state store\<close>

text \<open>
  The ORM tables the keeper reads and writes, each as an association list from primary key
  to record (a primary key occurs once). The records carry the fields of the generated
  \<open>api\<close> types that the modelled code touches; an amount is the decimal string kept at rest.
  An address (\<open>sdk.AccAddress\<close>) is a byte string. Keys and the precision are unsigned
  machine integers on which the code does no arithmetic, so they are natural numbers here.
\<close>

type_synonym address = string

record Timestamp =
  Seconds :: int
  Nanos :: int

record CreditType =
  ct_Abbreviation :: string
  ct_Precision :: nat

record Class =
  cl_Key :: nat
  cl_CreditTypeAbbrev :: string

record Project =
  pr_Key :: nat
  pr_ClassKey :: nat

record Batch =
  b_Key :: nat
  b_Issuer :: address
  b_ProjectKey :: nat
  b_Denom :: string
  b_StartDate :: "Timestamp option"
  b_EndDate :: "Timestamp option"

record BatchSupply =
  bs_BatchKey :: nat
  bs_TradableAmount :: string
  bs_RetiredAmount :: string
  bs_CancelledAmount :: string

record BatchBalance =
  bb_BatchKey :: nat
  bb_Address :: address
  bb_TradableAmount :: string
  bb_RetiredAmount :: string
  bb_EscrowedAmount :: string

record BasketBalance =
  kb_BasketId :: nat
  kb_BatchDenom :: string
  kb_Balance :: string

datatype event =
    EventTransfer string string string string string
  | EventRetire string string string string
  | EventCancel string string string string

text \<open>
  The state the three protocols run against: the tables, the events emitted so far
  through the event manager and the gas consumed so far (the gas meter is taken to have
  no limit).
\<close>

record state =
  CreditTypeTable :: "(string \<times> CreditType) list"
  ClassTable :: "(nat \<times> Class) list"
  ProjectTable :: "(nat \<times> Project) list"
  BatchTable :: "(nat \<times> Batch) list"
  BatchSupplyTable :: "(nat \<times> BatchSupply) list"
  BatchBalanceTable :: "((address \<times> nat) \<times> BatchBalance) list"
  BasketBalanceTable :: "BasketBalance list"
  events :: "event list"
  gas :: nat

text \<open>
  What the code takes from the Cosmos SDK and from sibling packages that are not among the
  sources: the bech32 decoding and encoding of addresses, the gas cost of one iteration,
  and the syntactic check of a batch denom. They are parameters of the model.
\<close>

record externals =
  AccAddressFromBech32 :: "string \<Rightarrow> error + address"
  AccAddressString :: "address \<Rightarrow> string"
  GasCostPerIteration :: nat
  ValidateBatchDenom :: "string \<Rightarrow> error option"

text \<open>\<open>Get\<close>, \<open>Save\<close> (insert or update) and \<open>Update\<close> (the record must exist) of a table.\<close>

definition table_Get :: "('k \<times> 'v) list \<Rightarrow> 'k \<Rightarrow> error + 'v" where
  "table_Get t k = (case map_of t k of None \<Rightarrow> Inl OrmNotFound | Some v \<Rightarrow> Inr v)"

definition table_Save :: "('k \<times> 'v) list \<Rightarrow> 'k \<Rightarrow> 'v \<Rightarrow> ('k \<times> 'v) list" where
  "table_Save t k v = AList.update k v t"

definition table_Update :: "('k \<times> 'v) list \<Rightarrow> 'k \<Rightarrow> 'v \<Rightarrow> error + ('k \<times> 'v) list" where
  "table_Update t k v =
     (case map_of t k of None \<Rightarrow> Inl OrmNotFound | Some old \<Rightarrow> Inr (AList.update k v t))"

definition GetByDenom :: "state \<Rightarrow> string \<Rightarrow> error + Batch" where
  "GetByDenom s denom =
     (case find (\<lambda>b. b_Denom b = denom) (map snd (BatchTable s)) of
        None \<Rightarrow> Inl OrmNotFound
      | Some b \<Rightarrow> Inr b)"

text \<open>
  Modelled from the spec: \<open>utils.GetCreditTypeFromBatchDenom\<close> is not among the sources. The
  spec resolves the credit type of a batch through the chain batch, project, class, credit
  type; a missing link is a not-found error.
\<close>

definition GetCreditTypeFromBatchDenom :: "state \<Rightarrow> string \<Rightarrow> error + CreditType" where
  "GetCreditTypeFromBatchDenom s denom =
     (case GetByDenom s denom of
        Inl e \<Rightarrow> Inl e
      | Inr batch \<Rightarrow>
     (case table_Get (ProjectTable s) (b_ProjectKey batch) of
        Inl e \<Rightarrow> Inl e
      | Inr project \<Rightarrow>
     (case table_Get (ClassTable s) (pr_ClassKey project) of
        Inl e \<Rightarrow> Inl e
      | Inr class \<Rightarrow> table_Get (CreditTypeTable s) (cl_CreditTypeAbbrev class))))"

text \<open>
  Modelled from the spec: \<open>utils.GetNonNegativeFixedDecs\<close> is not among the sources. It
  parses each string at the precision, in order, and fails with the first parse error.
\<close>

fun GetNonNegativeFixedDecs :: "nat \<Rightarrow> string list \<Rightarrow> error + Dec list" where
  "GetNonNegativeFixedDecs precision [] = Inr []"
| "GetNonNegativeFixedDecs precision (decimal # rest) =
     (case NewNonNegativeFixedDecFromString decimal precision of
        Inl e \<Rightarrow> Inl e
      | Inr dec \<Rightarrow>
          (case GetNonNegativeFixedDecs precision rest of
             Inl e \<Rightarrow> Inl e
           | Inr decs \<Rightarrow> Inr (dec # decs)))"

section \<open>Transfer: \<open>Send\<close> and \<open>sendEcocredits\<close>\<close>

record SendCredits =
  sc_BatchDenom :: string
  sc_TradableAmount :: string
  sc_RetiredAmount :: string
  sc_RetirementJurisdiction :: string

record MsgSend =
  ms_Sender :: string
  ms_Recipient :: string
  ms_Credits :: "SendCredits list"

text \<open>
  The blocks of \<open>sendEcocredits\<close> that compute without touching the store are functions of
  their own: the loading of the recipient's balance (lines 70 to 82 of \<open>send.go\<close>: a
  missing record is the all-zero balance), the tradable part of the transfer (lines 92 to
  101) and the part retired on receipt (lines 103 to 122, which also sets \<open>didRetire\<close>).
\<close>

definition get_toBalance :: "state \<Rightarrow> address \<Rightarrow> nat \<Rightarrow> error + BatchBalance" where
  "get_toBalance s to key =
     (case table_Get (BatchBalanceTable s) (to, key) of
        Inl e \<Rightarrow>
          if e = OrmNotFound
          then Inr \<lparr>bb_BatchKey = key, bb_Address = to,
                    bb_TradableAmount = ''0'', bb_RetiredAmount = ''0'',
                    bb_EscrowedAmount = []\<rparr>
          else Inl e
      | Inr b \<Rightarrow> Inr b)"

definition send_tradable :: "Dec \<Rightarrow> Dec \<Rightarrow> Dec \<Rightarrow> error + Dec \<times> Dec" where
  "send_tradable fromTradableBalance toTradableBalance sendAmtTradable =
     (if \<not> IsZero sendAmtTradable
      then (case SafeSubBalance fromTradableBalance sendAmtTradable of
              Inl e \<Rightarrow> Inl e
            | Inr f \<Rightarrow>
                (case Add toTradableBalance sendAmtTradable of
                   Inl e \<Rightarrow> Inl e
                 | Inr t \<Rightarrow> Inr (f, t)))
      else Inr (fromTradableBalance, toTradableBalance))"

definition send_retired ::
  "Dec \<Rightarrow> Dec \<Rightarrow> Dec \<Rightarrow> Dec \<Rightarrow> Dec \<Rightarrow> error + bool \<times> Dec \<times> Dec \<times> Dec \<times> Dec" where
  "send_retired fromTradableBalance toRetiredBalance batchSupplyRetired batchSupplyTradable
       sendAmtRetired =
     (if \<not> IsZero sendAmtRetired
      then (case SafeSubBalance fromTradableBalance sendAmtRetired of
              Inl e \<Rightarrow> Inl e
            | Inr f \<Rightarrow>
                (case Add toRetiredBalance sendAmtRetired of
                   Inl e \<Rightarrow> Inl e
                 | Inr tr \<Rightarrow>
                     (case Add batchSupplyRetired sendAmtRetired of
                        Inl e \<Rightarrow> Inl e
                      | Inr sr \<Rightarrow>
                          (case Sub batchSupplyTradable sendAmtRetired of
                             Inl e \<Rightarrow> Inl e
                           | Inr st \<Rightarrow> Inr (True, f, tr, sr, st)))))
      else Inr (False, fromTradableBalance, toRetiredBalance,
                batchSupplyRetired, batchSupplyTradable))"

text \<open>
  \<open>sendEcocredits\<close> returns the state it leaves behind together with its error, if any:
  a write that has happened before a later step fails stays in the returned state, as in
  the Go code, which writes through the context and has no undo of its own.
\<close>

definition sendEcocredits ::
  "externals \<Rightarrow> state \<Rightarrow> SendCredits \<Rightarrow> address \<Rightarrow> address \<Rightarrow> state \<times> error option" where
  "sendEcocredits x s credit to from =
     (case GetByDenom s (sc_BatchDenom credit) of
        Inl e \<Rightarrow> (s, Some (ErrInvalidRequest ''could not get batch with denom''))
      | Inr batch \<Rightarrow>
     (case GetCreditTypeFromBatchDenom s (b_Denom batch) of
        Inl e \<Rightarrow> (s, Some e)
      | Inr creditType \<Rightarrow>
     (case table_Get (BatchSupplyTable s) (b_Key batch) of
        Inl e \<Rightarrow> (s, Some e)
      | Inr batchSupply \<Rightarrow>
     (case table_Get (BatchBalanceTable s) (from, b_Key batch) of
        Inl e \<Rightarrow>
          (s, Some (if e = OrmNotFound
                    then ErrInsufficientCredits ''you do not have any credits from batch''
                    else e))
      | Inr fromBalance \<Rightarrow>
     (case get_toBalance s to (b_Key batch) of
        Inl e \<Rightarrow> (s, Some e)
      | Inr toBalance \<Rightarrow>
     (case GetNonNegativeFixedDecs (ct_Precision creditType)
             [bb_TradableAmount toBalance, bb_RetiredAmount toBalance,
              bb_TradableAmount fromBalance, bb_RetiredAmount fromBalance,
              sc_TradableAmount credit, sc_RetiredAmount credit,
              bs_TradableAmount batchSupply, bs_RetiredAmount batchSupply] of
        Inl e \<Rightarrow> (s, Some e)
      | Inr decs \<Rightarrow>
     (let toTradableBalance = decs ! 0; toRetiredBalance = decs ! 1;
          fromTradableBalance = decs ! 2; fromRetiredBalance = decs ! 3;
          sendAmtTradable = decs ! 4; sendAmtRetired = decs ! 5;
          batchSupplyTradable = decs ! 6; batchSupplyRetired = decs ! 7
      in
     (case send_tradable fromTradableBalance toTradableBalance sendAmtTradable of
        Inl e \<Rightarrow> (s, Some e)
      | Inr (fromTradableBalance1, toTradableBalance1) \<Rightarrow>
     (case send_retired fromTradableBalance1 toRetiredBalance batchSupplyRetired
             batchSupplyTradable sendAmtRetired of
        Inl e \<Rightarrow> (s, Some e)
      | Inr (didRetire, fromTradableBalance2, toRetiredBalance2,
             batchSupplyRetired2, batchSupplyTradable2) \<Rightarrow>
     (let s1 = s\<lparr>BatchBalanceTable :=
                   table_Save (BatchBalanceTable s) (to, b_Key batch)
                     \<lparr>bb_BatchKey = b_Key batch, bb_Address = to,
                      bb_TradableAmount = String toTradableBalance1,
                      bb_RetiredAmount = String toRetiredBalance2,
                      bb_EscrowedAmount = []\<rparr>\<rparr>
      in
     (case table_Update (BatchBalanceTable s1) (from, b_Key batch)
             \<lparr>bb_BatchKey = b_Key batch, bb_Address = from,
              bb_TradableAmount = String fromTradableBalance2,
              bb_RetiredAmount = String fromRetiredBalance,
              bb_EscrowedAmount = []\<rparr> of
        Inl e \<Rightarrow> (s1, Some e)
      | Inr balances2 \<Rightarrow>
     (let s2 = s1\<lparr>BatchBalanceTable := balances2\<rparr>
      in
      if didRetire
      then (case table_Update (BatchSupplyTable s2) (b_Key batch)
                   \<lparr>bs_BatchKey = b_Key batch,
                    bs_TradableAmount = String batchSupplyTradable2,
                    bs_RetiredAmount = String batchSupplyRetired2,
                    bs_CancelledAmount = bs_CancelledAmount batchSupply\<rparr> of
              Inl e \<Rightarrow> (s2, Some e)
            | Inr supplies3 \<Rightarrow>
                (s2\<lparr>BatchSupplyTable := supplies3,
                    events := events s2 @
                      [EventRetire (AccAddressString x to) (sc_BatchDenom credit)
                         (String sendAmtRetired) (sc_RetirementJurisdiction credit)]\<rparr>,
                 None))
      else (s2, None)))))))))))))"

fun Send_loop ::
  "externals \<Rightarrow> MsgSend \<Rightarrow> address \<Rightarrow> address \<Rightarrow> state \<Rightarrow> SendCredits list \<Rightarrow> state \<times> error option" where
  "Send_loop x req recipient sender s [] = (s, None)"
| "Send_loop x req recipient sender s (credit # rest) =
     (case sendEcocredits x s credit recipient sender of
        (s1, Some err) \<Rightarrow> (s1, Some err)
      | (s1, None) \<Rightarrow>
          Send_loop x req recipient sender
            (s1\<lparr>events := events s1 @
                   [EventTransfer (ms_Sender req) (ms_Recipient req) (sc_BatchDenom credit)
                      (sc_TradableAmount credit) (sc_RetiredAmount credit)],
                 gas := gas s1 + GasCostPerIteration x\<rparr>)
            rest)"

text \<open>\<open>Send\<close> drops the errors of the two address decodings: a failed decoding leaves the
  empty address.\<close>

definition Send :: "externals \<Rightarrow> state \<Rightarrow> MsgSend \<Rightarrow> state \<times> error option" where
  "Send x s req =
     (let sender = (case AccAddressFromBech32 x (ms_Sender req) of Inl e \<Rightarrow> [] | Inr a \<Rightarrow> a);
          recipient = (case AccAddressFromBech32 x (ms_Recipient req) of Inl e \<Rightarrow> [] | Inr a \<Rightarrow> a)
      in Send_loop x req recipient sender s (ms_Credits req))"

section \<open>Retirement: \<open>Retire\<close>\<close>

record Credits =
  cr_BatchDenom :: string
  cr_Amount :: string

record MsgRetire =
  mr_Owner :: string
  mr_Credits :: "Credits list"
  mr_Jurisdiction :: string

text \<open>One iteration of the loop of \<open>Retire\<close>: the body of the loop for one entry.\<close>

definition Retire_iteration ::
  "externals \<Rightarrow> MsgRetire \<Rightarrow> address \<Rightarrow> state \<Rightarrow> Credits \<Rightarrow> state \<times> error option" where
  "Retire_iteration x req owner s credit =
     (case GetByDenom s (cr_BatchDenom credit) of
        Inl e \<Rightarrow> (s, Some (ErrInvalidRequest ''could not get batch with denom''))
      | Inr batch \<Rightarrow>
     (case GetCreditTypeFromBatchDenom s (b_Denom batch) of
        Inl e \<Rightarrow> (s, Some e)
      | Inr creditType \<Rightarrow>
     (case table_Get (BatchBalanceTable s) (owner, b_Key batch) of
        Inl e \<Rightarrow> (s, Some (ErrInvalidRequest ''could not get balance''))
      | Inr userBalance \<Rightarrow>
     (case GetNonNegativeFixedDecs (ct_Precision creditType)
             [cr_Amount credit, bb_TradableAmount userBalance] of
        Inl e \<Rightarrow> (s, Some e)
      | Inr decs \<Rightarrow>
     (let amtToRetire = decs ! 0; userTradableBalance = decs ! 1 in
     (case SafeSubBalance userTradableBalance amtToRetire of
        Inl e \<Rightarrow> (s, Some e)
      | Inr userTradableBalance1 \<Rightarrow>
     (case NewNonNegativeFixedDecFromString (bb_RetiredAmount userBalance)
             (ct_Precision creditType) of
        Inl e \<Rightarrow> (s, Some e)
      | Inr userRetiredBalance \<Rightarrow>
     (case Add userRetiredBalance amtToRetire of
        Inl e \<Rightarrow> (s, Some e)
      | Inr userRetiredBalance1 \<Rightarrow>
     (case table_Get (BatchSupplyTable s) (b_Key batch) of
        Inl e \<Rightarrow> (s, Some e)
      | Inr batchSupply \<Rightarrow>
     (case GetNonNegativeFixedDecs (ct_Precision creditType)
             [bs_RetiredAmount batchSupply, bs_TradableAmount batchSupply] of
        Inl e \<Rightarrow> (s, Some e)
      | Inr decs2 \<Rightarrow>
     (let supplyRetired = decs2 ! 0; supplyTradable = decs2 ! 1 in
     (case Add supplyRetired amtToRetire of
        Inl e \<Rightarrow> (s, Some e)
      | Inr supplyRetired1 \<Rightarrow>
     (case SafeSubBalance supplyTradable amtToRetire of
        Inl e \<Rightarrow> (s, Some e)
      | Inr supplyTradable1 \<Rightarrow>
     (case table_Update (BatchBalanceTable s) (owner, b_Key batch)
             \<lparr>bb_BatchKey = b_Key batch, bb_Address = owner,
              bb_TradableAmount = String userTradableBalance1,
              bb_RetiredAmount = String userRetiredBalance1,
              bb_EscrowedAmount = []\<rparr> of
        Inl e \<Rightarrow> (s, Some e)
      | Inr balances1 \<Rightarrow>
     (let s1 = s\<lparr>BatchBalanceTable := balances1\<rparr> in
     (case table_Update (BatchSupplyTable s1) (b_Key batch)
             \<lparr>bs_BatchKey = b_Key batch,
              bs_TradableAmount = String supplyTradable1,
              bs_RetiredAmount = String supplyRetired1,
              bs_CancelledAmount = bs_CancelledAmount batchSupply\<rparr> of
        Inl e \<Rightarrow> (s1, Some e)
      | Inr supplies2 \<Rightarrow>
          (s1\<lparr>BatchSupplyTable := supplies2,
                 events := events s1 @
                   [EventRetire (mr_Owner req) (cr_BatchDenom credit) (cr_Amount credit)
                      (mr_Jurisdiction req)],
                 gas := gas s1 + GasCostPerIteration x\<rparr>,
           None)))))))))))))))))"

fun Retire_loop ::
  "externals \<Rightarrow> MsgRetire \<Rightarrow> address \<Rightarrow> state \<Rightarrow> Credits list \<Rightarrow> state \<times> error option" where
  "Retire_loop x req owner s [] = (s, None)"
| "Retire_loop x req owner s (credit # rest) =
     (case Retire_iteration x req owner s credit of
        (s1, Some err) \<Rightarrow> (s1, Some err)
      | (s1, None) \<Rightarrow> Retire_loop x req owner s1 rest)"

text \<open>\<open>Retire\<close> drops the error of the address decoding, as \<open>Send\<close> does.\<close>

definition Retire :: "externals \<Rightarrow> state \<Rightarrow> MsgRetire \<Rightarrow> state \<times> error option" where
  "Retire x s req =
     (let owner = (case AccAddressFromBech32 x (mr_Owner req) of Inl e \<Rightarrow> [] | Inr a \<Rightarrow> a)
      in Retire_loop x req owner s (mr_Credits req))"

section \<open>Cancellation: \<open>Cancel\<close>\<close>

record MsgCancel =
  mc_Owner :: string
  mc_Credits :: "Credits list"
  mc_Reason :: string

text \<open>One iteration of the loop of \<open>Cancel\<close>: the body of the loop for one entry.\<close>

definition Cancel_iteration ::
  "externals \<Rightarrow> MsgCancel \<Rightarrow> address \<Rightarrow> state \<Rightarrow> Credits \<Rightarrow> state \<times> error option" where
  "Cancel_iteration x req owner s credit =
     (case GetByDenom s (cr_BatchDenom credit) of
        Inl e \<Rightarrow> (s, Some (ErrInvalidRequest ''could not get batch with denom''))
      | Inr batch \<Rightarrow>
     (case GetCreditTypeFromBatchDenom s (b_Denom batch) of
        Inl e \<Rightarrow> (s, Some e)
      | Inr creditType \<Rightarrow>
     (case table_Get (BatchBalanceTable s) (owner, b_Key batch) of
        Inl e \<Rightarrow> (s, Some (ErrInvalidRequest ''could not get balance''))
      | Inr userBalance \<Rightarrow>
     (case table_Get (BatchSupplyTable s) (b_Key batch) of
        Inl e \<Rightarrow> (s, Some e)
      | Inr batchSupply \<Rightarrow>
     (case GetNonNegativeFixedDecs (ct_Precision creditType)
             [cr_Amount credit, bs_TradableAmount batchSupply,
              bb_TradableAmount userBalance, bs_CancelledAmount batchSupply] of
        Inl e \<Rightarrow> (s, Some e)
      | Inr decs \<Rightarrow>
     (let amtToCancelDec = decs ! 0; supplyTradable = decs ! 1;
          userBalTradable = decs ! 2; cancelledDec = decs ! 3 in
     (case SafeSubBalance userBalTradable amtToCancelDec of
        Inl e \<Rightarrow> (s, Some e)
      | Inr userBalTradable1 \<Rightarrow>
     (case SafeSubBalance supplyTradable amtToCancelDec of
        Inl e \<Rightarrow> (s, Some e)
      | Inr supplyTradable1 \<Rightarrow>
     (case Add cancelledDec amtToCancelDec of
        Inl e \<Rightarrow> (s, Some e)
      | Inr cancelledDec1 \<Rightarrow>
     (case table_Update (BatchBalanceTable s) (owner, b_Key batch)
             \<lparr>bb_BatchKey = b_Key batch, bb_Address = owner,
              bb_TradableAmount = String userBalTradable1,
              bb_RetiredAmount = bb_RetiredAmount userBalance,
              bb_EscrowedAmount = []\<rparr> of
        Inl e \<Rightarrow> (s, Some e)
      | Inr balances1 \<Rightarrow>
     (let s1 = s\<lparr>BatchBalanceTable := balances1\<rparr> in
     (case table_Update (BatchSupplyTable s1) (b_Key batch)
             \<lparr>bs_BatchKey = b_Key batch,
              bs_TradableAmount = String supplyTradable1,
              bs_RetiredAmount = bs_RetiredAmount batchSupply,
              bs_CancelledAmount = String cancelledDec1\<rparr> of
        Inl e \<Rightarrow> (s1, Some e)
      | Inr supplies2 \<Rightarrow>
          (s1\<lparr>BatchSupplyTable := supplies2,
                 events := events s1 @
                   [EventCancel (AccAddressString x owner) (cr_BatchDenom credit)
                      (cr_Amount credit) (mc_Reason req)],
                 gas := gas s1 + GasCostPerIteration x\<rparr>,
           None)))))))))))))"

fun Cancel_loop ::
  "externals \<Rightarrow> MsgCancel \<Rightarrow> address \<Rightarrow> state \<Rightarrow> Credits list \<Rightarrow> state \<times> error option" where
  "Cancel_loop x req owner s [] = (s, None)"
| "Cancel_loop x req owner s (credit # rest) =
     (case Cancel_iteration x req owner s credit of
        (s1, Some err) \<Rightarrow> (s1, Some err)
      | (s1, None) \<Rightarrow> Cancel_loop x req owner s1 rest)"

definition Cancel :: "externals \<Rightarrow> state \<Rightarrow> MsgCancel \<Rightarrow> state \<times> error option" where
  "Cancel x s req =
     (case AccAddressFromBech32 x (mc_Owner req) of
        Inl e \<Rightarrow> (s, Some e)
      | Inr owner \<Rightarrow> Cancel_loop x req owner s (mc_Credits req))"

section \<open>Sequences of operations\<close>

datatype msg = OpSend MsgSend | OpRetire MsgRetire | OpCancel MsgCancel

fun apply_msg :: "externals \<Rightarrow> state \<Rightarrow> msg \<Rightarrow> state \<times> error option" where
  "apply_msg x s (OpSend req) = Send x s req"
| "apply_msg x s (OpRetire req) = Retire x s req"
| "apply_msg x s (OpCancel req) = Cancel x s req"

text \<open>A sequence of operations, each of which succeeds: \<open>None\<close> as soon as one fails.\<close>

fun run_msgs :: "externals \<Rightarrow> state \<Rightarrow> msg list \<Rightarrow> state option" where
  "run_msgs x s [] = Some s"
| "run_msgs x s (m # ms) =
     (case apply_msg x s m of
        (s1, Some err) \<Rightarrow> None
      | (s1, None) \<Rightarrow> run_msgs x s1 ms)"

section \<open>Accounting quantities\<close>

text \<open>The three supply pools of a batch, as numbers; zero where the batch has no record.\<close>

definition supply_tradable :: "state \<Rightarrow> nat \<Rightarrow> rat" where
  "supply_tradable s k =
     (case map_of (BatchSupplyTable s) k of None \<Rightarrow> 0 | Some r \<Rightarrow> amt_val (bs_TradableAmount r))"

definition supply_retired :: "state \<Rightarrow> nat \<Rightarrow> rat" where
  "supply_retired s k =
     (case map_of (BatchSupplyTable s) k of None \<Rightarrow> 0 | Some r \<Rightarrow> amt_val (bs_RetiredAmount r))"

definition supply_cancelled :: "state \<Rightarrow> nat \<Rightarrow> rat" where
  "supply_cancelled s k =
     (case map_of (BatchSupplyTable s) k of None \<Rightarrow> 0 | Some r \<Rightarrow> amt_val (bs_CancelledAmount r))"

definition balance_total :: "BatchBalance \<Rightarrow> rat" where
  "balance_total b =
     amt_val (bb_TradableAmount b) + amt_val (bb_RetiredAmount b) + amt_val (bb_EscrowedAmount b)"

text \<open>The sum over all holders of a batch of tradable, retired and escrowed amounts.\<close>

definition holders_total :: "state \<Rightarrow> nat \<Rightarrow> rat" where
  "holders_total s k =
     sum_list (map (\<lambda>(key, b). balance_total b)
                 (filter (\<lambda>(key, b). snd key = k) (BatchBalanceTable s)))"

text \<open>The sum of the basket balances held in the batch of key \<open>k\<close>.\<close>

definition denoms_of_key :: "state \<Rightarrow> nat \<Rightarrow> string list" where
  "denoms_of_key s k = map b_Denom (filter (\<lambda>batch. b_Key batch = k) (map snd (BatchTable s)))"

definition basket_total :: "state \<Rightarrow> nat \<Rightarrow> rat" where
  "basket_total s k =
     sum_list (map (\<lambda>b. amt_val (kb_Balance b))
                 (filter (\<lambda>b. kb_BatchDenom b \<in> set (denoms_of_key s k))
                    (BasketBalanceTable s)))"

definition supply_invariant :: "state \<Rightarrow> nat \<Rightarrow> bool" where
  "supply_invariant s k \<longleftrightarrow>
     holders_total s k + basket_total s k = supply_tradable s k + supply_retired s k"

section \<open>Genesis validation\<close>

text \<open>
  The part of \<open>ValidateGenesis\<close> that follows the import of the JSON data into the tables
  (from line 75 of \<open>genesis.go\<close>): the tables are given as the lists of their records, in
  the order the iterators yield them. The validation of the parameters and the import
  itself belong to the ORM and are not modelled.

  A Go map is an association list with one entry per key; reading a missing key gives the
  zero value. The loop of \<open>validateSupply\<close> visits the entries of the calculated supplies in
  the order of the list (Go leaves the order open; the first failing entry of the order
  taken decides the error returned, and whether an error is returned does not depend on
  the order).

  The errors, with the Go error each stands for:
  \<^item> \<open>CreditTypeNotExist\<close>: \<open>sdkerrors.ErrNotFound\<close>, credit type not exist for the abbreviation;
  \<^item> \<open>ClassNotFound\<close>: the not-found error of \<open>ClassTable().Get\<close>;
  \<^item> \<open>AmountError\<close>: an error of the decimal engine;
  \<^item> \<open>BatchWithoutCreditType\<close>: \<open>sdkerrors.ErrInvalidType\<close>, credit type not exist for the batch;
  \<^item> \<open>UnknownBasketBatch\<close>: unknown credit batch in basket;
  \<^item> \<open>SupplyGivenNoBalances\<close>, \<open>BalancesGivenNoSupplies\<close>: \<open>sdkerrors.ErrInvalidRequest\<close>,
    the two errors raised before the comparison by batch;
  \<^item> \<open>SupplyIncorrect\<close>: \<open>sdkerrors.ErrInvalidCoins\<close>, supply is incorrect for the batch, with
    the expected and the calculated amount;
  \<^item> \<open>SupplyNotFound\<close>: \<open>sdkerrors.ErrNotFound\<close>, supply is not found for the batch.
\<close>

datatype genesis_error =
    CreditTypeNotExist string
  | ClassNotFound
  | AmountError error
  | BatchWithoutCreditType nat
  | UnknownBasketBatch nat
  | SupplyGivenNoBalances
  | BalancesGivenNoSupplies
  | SupplyIncorrect nat Dec Dec
  | SupplyNotFound nat

record genesis =
  g_CreditTypes :: "CreditType list"
  g_Classes :: "Class list"
  g_Projects :: "Project list"
  g_Batches :: "Batch list"
  g_BatchSupplies :: "BatchSupply list"
  g_BatchBalances :: "BatchBalance list"
  g_BasketBalances :: "BasketBalance list"

definition go_lookup :: "('k \<times> nat) list \<Rightarrow> 'k \<Rightarrow> nat" where
  "go_lookup m k = (case map_of m k of None \<Rightarrow> 0 | Some v \<Rightarrow> v)"

text \<open>Lines 75 to 87: the precision of each credit type abbreviation.\<close>

fun abbrevToPrecision_loop :: "CreditType list \<Rightarrow> (string \<times> nat) list \<Rightarrow> (string \<times> nat) list" where
  "abbrevToPrecision_loop [] m = m"
| "abbrevToPrecision_loop (ct # rest) m =
     abbrevToPrecision_loop rest (AList.update (ct_Abbreviation ct) (ct_Precision ct) m)"

text \<open>Lines 96 to 105: every class names a known credit type.\<close>

fun check_classes :: "Class list \<Rightarrow> (string \<times> nat) list \<Rightarrow> genesis_error option" where
  "check_classes [] abbrevToPrecision = None"
| "check_classes (class # rest) abbrevToPrecision =
     (case map_of abbrevToPrecision (cl_CreditTypeAbbrev class) of
        None \<Rightarrow> Some (CreditTypeNotExist (cl_CreditTypeAbbrev class))
      | Some p \<Rightarrow> check_classes rest abbrevToPrecision)"

text \<open>Lines 107 to 124: the class key of each project key; the first record of a key wins.\<close>

fun projectKeyToClassKey_loop :: "Project list \<Rightarrow> (nat \<times> nat) list \<Rightarrow> (nat \<times> nat) list" where
  "projectKeyToClassKey_loop [] m = m"
| "projectKeyToClassKey_loop (project # rest) m =
     (case map_of m (pr_Key project) of
        Some c \<Rightarrow> projectKeyToClassKey_loop rest m
      | None \<Rightarrow>
          projectKeyToClassKey_loop rest (AList.update (pr_Key project) (pr_ClassKey project) m))"

text \<open>
  Lines 126 to 155: the precision of each batch key and the key of each batch denom. The
  class is read from the class table by the class key of the batch's project.
\<close>

fun batches_loop ::
  "Class list \<Rightarrow> (string \<times> nat) list \<Rightarrow> (nat \<times> nat) list \<Rightarrow> Batch list \<Rightarrow>
   (nat \<times> nat) list \<Rightarrow> (string \<times> nat) list \<Rightarrow>
   genesis_error + (nat \<times> nat) list \<times> (string \<times> nat) list" where
  "batches_loop classes abbrevToPrecision projectKeyToClassKey []
       batchIdToPrecision batchDenomToIdMap =
     Inr (batchIdToPrecision, batchDenomToIdMap)"
| "batches_loop classes abbrevToPrecision projectKeyToClassKey (batch # rest)
       batchIdToPrecision batchDenomToIdMap =
     (let batchDenomToIdMap1 = AList.update (b_Denom batch) (b_Key batch) batchDenomToIdMap in
      case map_of batchIdToPrecision (b_Key batch) of
        Some p \<Rightarrow>
          batches_loop classes abbrevToPrecision projectKeyToClassKey rest
            batchIdToPrecision batchDenomToIdMap1
      | None \<Rightarrow>
          (case find (\<lambda>c. cl_Key c = go_lookup projectKeyToClassKey (b_ProjectKey batch))
                  classes of
             None \<Rightarrow> Inl ClassNotFound
           | Some class \<Rightarrow>
               batches_loop classes abbrevToPrecision projectKeyToClassKey rest
                 (if cl_Key class = go_lookup projectKeyToClassKey (b_ProjectKey batch)
                  then AList.update (b_Key batch)
                         (go_lookup abbrevToPrecision (cl_CreditTypeAbbrev class))
                         batchIdToPrecision
                  else batchIdToPrecision)
                 batchDenomToIdMap1))"

text \<open>An amount of a genesis record: the empty string is zero, anything else is parsed at
  the precision.\<close>

definition parse_or_zero :: "string \<Rightarrow> nat \<Rightarrow> genesis_error + Dec" where
  "parse_or_zero amount precision =
     (if amount \<noteq> []
      then (case NewNonNegativeFixedDecFromString amount precision of
              Inl e \<Rightarrow> Inl (AmountError e)
            | Inr d \<Rightarrow> Inr d)
      else Inr (NewDecFromInt64 0))"

text \<open>Lines 157 to 193: the declared supply of each batch, tradable and retired together.\<close>

fun supplies_loop ::
  "(nat \<times> nat) list \<Rightarrow> BatchSupply list \<Rightarrow> (nat \<times> Dec) list \<Rightarrow>
   genesis_error + (nat \<times> Dec) list" where
  "supplies_loop batchIdToPrecision [] batchIdToSupply = Inr batchIdToSupply"
| "supplies_loop batchIdToPrecision (batchSupply # rest) batchIdToSupply =
     (case parse_or_zero (bs_TradableAmount batchSupply)
             (go_lookup batchIdToPrecision (bs_BatchKey batchSupply)) of
        Inl e \<Rightarrow> Inl e
      | Inr tSupply \<Rightarrow>
     (case parse_or_zero (bs_RetiredAmount batchSupply)
             (go_lookup batchIdToPrecision (bs_BatchKey batchSupply)) of
        Inl e \<Rightarrow> Inl e
      | Inr rSupply \<Rightarrow>
     (case SafeAddBalance tSupply rSupply of
        Inl e \<Rightarrow> Inl (AmountError e)
      | Inr total1 \<Rightarrow>
          supplies_loop batchIdToPrecision rest
            (AList.update (bs_BatchKey batchSupply) total1 batchIdToSupply))))"

text \<open>\<open>calculateSupply\<close>: the calculated supply of each batch that has a balance record, the
  sum of the tradable, retired and escrowed amounts of its records.\<close>

fun calculateSupply ::
  "(nat \<times> nat) list \<Rightarrow> BatchBalance list \<Rightarrow> (nat \<times> Dec) list \<Rightarrow>
   genesis_error + (nat \<times> Dec) list" where
  "calculateSupply batchIdToPrecision [] batchIdToSupply = Inr batchIdToSupply"
| "calculateSupply batchIdToPrecision (balance # rest) batchIdToSupply =
     (case map_of batchIdToPrecision (bb_BatchKey balance) of
        None \<Rightarrow> Inl (BatchWithoutCreditType (bb_BatchKey balance))
      | Some precision \<Rightarrow>
     (case parse_or_zero (bb_TradableAmount balance) precision of
        Inl e \<Rightarrow> Inl e
      | Inr tradable \<Rightarrow>
     (case parse_or_zero (bb_RetiredAmount balance) precision of
        Inl e \<Rightarrow> Inl e
      | Inr retired \<Rightarrow>
     (case parse_or_zero (bb_EscrowedAmount balance) precision of
        Inl e \<Rightarrow> Inl e
      | Inr escrowed \<Rightarrow>
     (case Add tradable retired of
        Inl e \<Rightarrow> Inl (AmountError e)
      | Inr total1 \<Rightarrow>
     (case Add total1 escrowed of
        Inl e \<Rightarrow> Inl (AmountError e)
      | Inr total2 \<Rightarrow>
     (case map_of batchIdToSupply (bb_BatchKey balance) of
        Some supply \<Rightarrow>
          (case SafeAddBalance supply total2 of
             Inl e \<Rightarrow> Inl (AmountError e)
           | Inr result \<Rightarrow>
               calculateSupply batchIdToPrecision rest
                 (AList.update (bb_BatchKey balance) result batchIdToSupply))
      | None \<Rightarrow>
          calculateSupply batchIdToPrecision rest
            (AList.update (bb_BatchKey balance) total2 batchIdToSupply))))))))"

text \<open>Lines 205 to 235: the basket balances are added to the calculated supply of their
  batch, which must be there already.\<close>

fun basket_loop ::
  "(string \<times> nat) list \<Rightarrow> BasketBalance list \<Rightarrow> (nat \<times> Dec) list \<Rightarrow>
   genesis_error + (nat \<times> Dec) list" where
  "basket_loop batchDenomToIdMap [] batchIdToCalSupply = Inr batchIdToCalSupply"
| "basket_loop batchDenomToIdMap (bBalance # rest) batchIdToCalSupply =
     (case map_of batchDenomToIdMap (kb_BatchDenom bBalance) of
        None \<Rightarrow> Inl (UnknownBasketBatch 0)
      | Some batchId \<Rightarrow>
     (case NewNonNegativeDecFromString (kb_Balance bBalance) of
        Inl e \<Rightarrow> Inl (AmountError e)
      | Inr bb \<Rightarrow>
     (case map_of batchIdToCalSupply batchId of
        Some amount \<Rightarrow>
          (case SafeAddBalance amount bb of
             Inl e \<Rightarrow> Inl (AmountError e)
           | Inr result \<Rightarrow>
               basket_loop batchDenomToIdMap rest
                 (AList.update batchId result batchIdToCalSupply))
      | None \<Rightarrow> Inl (UnknownBasketBatch batchId))))"

fun validateSupply_loop :: "(nat \<times> Dec) list \<Rightarrow> (nat \<times> Dec) list \<Rightarrow> genesis_error option" where
  "validateSupply_loop [] batchIdToSupply = None"
| "validateSupply_loop ((denom, cs) # rest) batchIdToSupply =
     (case map_of batchIdToSupply denom of
        Some s \<Rightarrow>
          if Cmp s cs \<noteq> EqualTo then Some (SupplyIncorrect denom s cs)
          else validateSupply_loop rest batchIdToSupply
      | None \<Rightarrow> Some (SupplyNotFound denom))"

definition validateSupply :: "(nat \<times> Dec) list \<Rightarrow> (nat \<times> Dec) list \<Rightarrow> genesis_error option" where
  "validateSupply batchIdToSupplyCal batchIdToSupply =
     (if length batchIdToSupplyCal = 0 \<and> length batchIdToSupply > 0
      then Some SupplyGivenNoBalances
      else if length batchIdToSupply = 0 \<and> length batchIdToSupplyCal > 0
      then Some BalancesGivenNoSupplies
      else validateSupply_loop batchIdToSupplyCal batchIdToSupply)"

definition ValidateGenesis :: "genesis \<Rightarrow> genesis_error option" where
  "ValidateGenesis g =
     (let abbrevToPrecision = abbrevToPrecision_loop (g_CreditTypes g) [] in
      case check_classes (g_Classes g) abbrevToPrecision of
        Some e \<Rightarrow> Some e
      | None \<Rightarrow>
     (let projectKeyToClassKey = projectKeyToClassKey_loop (g_Projects g) [] in
      case batches_loop (g_Classes g) abbrevToPrecision projectKeyToClassKey (g_Batches g)
             [] [] of
        Inl e \<Rightarrow> Some e
      | Inr (batchIdToPrecision, batchDenomToIdMap) \<Rightarrow>
     (case supplies_loop batchIdToPrecision (g_BatchSupplies g) [] of
        Inl e \<Rightarrow> Some e
      | Inr batchIdToSupply \<Rightarrow>
     (case calculateSupply batchIdToPrecision (g_BatchBalances g) [] of
        Inl e \<Rightarrow> Some e
      | Inr batchIdToCalSupply \<Rightarrow>
     (case basket_loop batchDenomToIdMap (g_BasketBalances g) batchIdToCalSupply of
        Inl e \<Rightarrow> Some e
      | Inr batchIdToCalSupply1 \<Rightarrow>
          validateSupply batchIdToCalSupply1 batchIdToSupply)))))"

section \<open>Validation of a batch\<close>

text \<open>
  The dates of a batch are protobuf timestamps, seconds and nanoseconds. Their type and its
  \<open>Compare\<close> come with the protobuf library and are not among the sources; \<open>Compare\<close> is
  taken to order by seconds first, then by nanoseconds, with the result \<open>-1\<close>, \<open>0\<close> or \<open>1\<close>.
\<close>

definition Compare :: "Timestamp \<Rightarrow> Timestamp \<Rightarrow> int" where
  "Compare this that =
     (if Seconds this \<noteq> Seconds that
      then (if Seconds this < Seconds that then - 1 else 1)
      else if Nanos this \<noteq> Nanos that
      then (if Nanos this < Nanos that then - 1 else 1)
      else 0)"

text \<open>
  \<open>Batch.Validate\<close>. The check of the issuer re-encodes the address bytes and decodes them
  again.
\<close>

definition Batch_Validate :: "externals \<Rightarrow> Batch \<Rightarrow> error option" where
  "Batch_Validate x b =
     (case ValidateBatchDenom x (b_Denom b) of
        Some err \<Rightarrow> Some err
      | None \<Rightarrow>
          if b_ProjectKey b = 0 then Some (ErrInvalidRequest ''project key cannot be zero'')
          else (case b_StartDate b of
                  None \<Rightarrow>
                    Some (ErrInvalidRequest ''must provide a start date for the credit batch'')
                | Some startDate \<Rightarrow>
                    (case b_EndDate b of
                       None \<Rightarrow>
                         Some (ErrInvalidRequest ''must provide an end date for the credit batch'')
                     | Some endDate \<Rightarrow>
                         if Compare endDate startDate \<noteq> 1
                         then Some (ErrInvalidRequest
                                ''the batch end date must be the same as or after the batch start date'')
                         else (case AccAddressFromBech32 x (AccAddressString x (b_Issuer b)) of
                                 Inl err \<Rightarrow> Some err
                               | Inr a \<Rightarrow> None))))"

section \<open>Notions used in the statements\<close>

text \<open>The conserved quantity of a batch: tradable, retired and cancelled supply together.\<close>

definition supply_total :: "state \<Rightarrow> nat \<Rightarrow> rat" where
  "supply_total s k = supply_tradable s k + supply_retired s k + supply_cancelled s k"

text \<open>The all-zero balance record that \<open>sendEcocredits\<close> takes for a recipient without one.\<close>

definition zero_balance :: "address \<Rightarrow> nat \<Rightarrow> BatchBalance" where
  "zero_balance to key =
     \<lparr>bb_BatchKey = key, bb_Address = to, bb_TradableAmount = ''0'',
      bb_RetiredAmount = ''0'', bb_EscrowedAmount = []\<rparr>"

definition with_zero_balance :: "state \<Rightarrow> address \<Rightarrow> nat \<Rightarrow> state" where
  "with_zero_balance s to key =
     s\<lparr>BatchBalanceTable := table_Save (BatchBalanceTable s) (to, key) (zero_balance to key)\<rparr>"

text \<open>
  Conditions on a state under which the three protocols keep the invariant: the primary
  keys of the balance table are distinct, and no balance record holds an escrowed amount.
\<close>

definition distinct_keys :: "state \<Rightarrow> bool" where
  "distinct_keys s \<longleftrightarrow> distinct (map fst (BatchBalanceTable s))"

definition no_escrow :: "state \<Rightarrow> bool" where
  "no_escrow s \<longleftrightarrow> list_all (\<lambda>(key, b). amt_val (bb_EscrowedAmount b) = 0) (BatchBalanceTable s)"

text \<open>A \<open>Send\<close> whose sender and recipient decode to different addresses; \<open>Retire\<close> and
  \<open>Cancel\<close> have one party only.\<close>

fun distinct_parties :: "externals \<Rightarrow> msg \<Rightarrow> bool" where
  "distinct_parties x (OpSend req) \<longleftrightarrow>
     (case AccAddressFromBech32 x (ms_Sender req) of Inl e \<Rightarrow> [] | Inr a \<Rightarrow> a)
       \<noteq> (case AccAddressFromBech32 x (ms_Recipient req) of Inl e \<Rightarrow> [] | Inr a \<Rightarrow> a)"
| "distinct_parties x (OpRetire req) \<longleftrightarrow> True"
| "distinct_parties x (OpCancel req) \<longleftrightarrow> True"

text \<open>The order of two dates in the words of the spec: \<open>e\<close> is strictly after \<open>s\<close>.\<close>

definition date_after :: "Timestamp \<Rightarrow> Timestamp \<Rightarrow> bool" where
  "date_after e s \<longleftrightarrow> Seconds s < Seconds e \<or> (Seconds s = Seconds e \<and> Nanos s < Nanos e)"

text \<open>The instant a well-formed timestamp denotes, in nanoseconds.\<close>

definition instant :: "Timestamp \<Rightarrow> int" where
  "instant t = Seconds t * 1000000000 + Nanos t"

definition valid_nanos :: "Timestamp \<Rightarrow> bool" where
  "valid_nanos t \<longleftrightarrow> 0 \<le> Nanos t \<and> Nanos t < 1000000000"

section \<open>Example data\<close>

text \<open>
  Concrete externals and states on which the theorems below are instantiated. The example
  decoder accepts every non-empty string and takes it as the address; the example denom
  check accepts every non-empty denom.
\<close>

definition ex_decode :: "string \<Rightarrow> error + address" where
  "ex_decode a = (if a = [] then Inl ErrInvalidAddress else Inr a)"

definition ex_encode :: "address \<Rightarrow> string" where
  "ex_encode a = a"

definition ex_denom_check :: "string \<Rightarrow> error option" where
  "ex_denom_check d = (if d = [] then Some (ErrInvalidRequest ''invalid denom'') else None)"

definition ex_externals :: externals where
  "ex_externals =
     \<lparr>AccAddressFromBech32 = ex_decode, AccAddressString = ex_encode,
      GasCostPerIteration = 10, ValidateBatchDenom = ex_denom_check\<rparr>"

definition ex_batch :: "nat \<Rightarrow> int \<Rightarrow> int \<Rightarrow> Batch" where
  "ex_batch project_key start_seconds end_seconds =
     \<lparr>b_Key = 1, b_Issuer = ''issuer'', b_ProjectKey = project_key, b_Denom = ''C01-001'',
      b_StartDate = Some \<lparr>Seconds = start_seconds, Nanos = 0\<rparr>,
      b_EndDate = Some \<lparr>Seconds = end_seconds, Nanos = 0\<rparr>\<rparr>"

text \<open>A state for the examples: one credit type of precision 2, one class, one project and
  one batch (key 1, denom \<open>C01-001\<close>), with the given supply and balance records.\<close>

definition ex_state :: "(nat \<times> BatchSupply) list \<Rightarrow> ((address \<times> nat) \<times> BatchBalance) list \<Rightarrow> state" where
  "ex_state supplies balances =
     \<lparr>CreditTypeTable = [(''C'', \<lparr>ct_Abbreviation = ''C'', ct_Precision = 2\<rparr>)],
      ClassTable = [(1, \<lparr>cl_Key = 1, cl_CreditTypeAbbrev = ''C''\<rparr>)],
      ProjectTable = [(1, \<lparr>pr_Key = 1, pr_ClassKey = 1\<rparr>)],
      BatchTable = [(1, \<lparr>b_Key = 1, b_Issuer = ''issuer'', b_ProjectKey = 1,
                         b_Denom = ''C01-001'', b_StartDate = None, b_EndDate = None\<rparr>)],
      BatchSupplyTable = supplies,
      BatchBalanceTable = balances,
      BasketBalanceTable = [],
      events = [],
      gas = 0\<rparr>"

definition ex_supply :: "string \<Rightarrow> string \<Rightarrow> string \<Rightarrow> nat \<times> BatchSupply" where
  "ex_supply tradable retired cancelled =
     (1, \<lparr>bs_BatchKey = 1, bs_TradableAmount = tradable, bs_RetiredAmount = retired,
          bs_CancelledAmount = cancelled\<rparr>)"

definition ex_balance :: "address \<Rightarrow> string \<Rightarrow> string \<Rightarrow> string \<Rightarrow> (address \<times> nat) \<times> BatchBalance" where
  "ex_balance a tradable retired escrowed =
     ((a, 1), \<lparr>bb_BatchKey = 1, bb_Address = a, bb_TradableAmount = tradable,
               bb_RetiredAmount = retired, bb_EscrowedAmount = escrowed\<rparr>)"

definition ex_send :: "string \<Rightarrow> string \<Rightarrow> SendCredits" where
  "ex_send tradable retired =
     \<lparr>sc_BatchDenom = ''C01-001'', sc_TradableAmount = tradable, sc_RetiredAmount = retired,
      sc_RetirementJurisdiction = ''US''\<rparr>"

definition ex_credits :: "string \<Rightarrow> Credits" where
  "ex_credits amount = \<lparr>cr_BatchDenom = ''C01-001'', cr_Amount = amount\<rparr>"

definition ex_msgs :: "msg list" where
  "ex_msgs =
     [OpSend \<lparr>ms_Sender = ''alice'', ms_Recipient = ''bob'',
              ms_Credits = [ex_send ''30.00'' ''10.00'']\<rparr>,
      OpRetire \<lparr>mr_Owner = ''bob'', mr_Credits = [ex_credits ''5''], mr_Jurisdiction = ''US''\<rparr>,
      OpCancel \<lparr>mc_Owner = ''alice'', mc_Credits = [ex_credits ''0.5''],
                mc_Reason = ''bridge''\<rparr>]"

text \<open>A genesis for the examples: one credit type of precision 2, one class, one project,
  the batches of key 1 (denom \<open>C01-001\<close>) and key 2 (denom \<open>C01-002\<close>), and the given supply
  and balance records.\<close>

definition ex_genesis :: "BatchSupply list \<Rightarrow> BatchBalance list \<Rightarrow> genesis" where
  "ex_genesis supplies balances =
     \<lparr>g_CreditTypes = [\<lparr>ct_Abbreviation = ''C'', ct_Precision = 2\<rparr>],
      g_Classes = [\<lparr>cl_Key = 1, cl_CreditTypeAbbrev = ''C''\<rparr>],
      g_Projects = [\<lparr>pr_Key = 1, pr_ClassKey = 1\<rparr>],
      g_Batches =
        [\<lparr>b_Key = 1, b_Issuer = ''issuer'', b_ProjectKey = 1, b_Denom = ''C01-001'',
          b_StartDate = None, b_EndDate = None\<rparr>,
         \<lparr>b_Key = 2, b_Issuer = ''issuer'', b_ProjectKey = 1, b_Denom = ''C01-002'',
          b_StartDate = None, b_EndDate = None\<rparr>],
      g_BatchSupplies = supplies,
      g_BatchBalances = balances,
      g_BasketBalances = []\<rparr>"

definition ex_gsupply :: "nat \<Rightarrow> string \<Rightarrow> string \<Rightarrow> BatchSupply" where
  "ex_gsupply key tradable retired =
     \<lparr>bs_BatchKey = key, bs_TradableAmount = tradable, bs_RetiredAmount = retired,
      bs_CancelledAmount = ''0''\<rparr>"

definition ex_gbalance :: "nat \<Rightarrow> address \<Rightarrow> string \<Rightarrow> string \<Rightarrow> string \<Rightarrow> BatchBalance" where
  "ex_gbalance key a tradable retired escrowed =
     \<lparr>bb_BatchKey = key, bb_Address = a, bb_TradableAmount = tradable,
      bb_RetiredAmount = retired, bb_EscrowedAmount = escrowed\<rparr>"

section \<open>Facts about the decimal engine\<close>

lemma digit_val_digit_char: "n < 10 \<Longrightarrow> digit_val (digit_char n) = n"
proof -
  have "list_all (\<lambda>k. digit_val (digit_char k) = k) [0..<10]"
    by code_simp
  then show "n < 10 \<Longrightarrow> digit_val (digit_char n) = n"
    by (simp add: list_all_iff)
qed

lemma is_digit_digit_char: "is_digit (digit_char n)"
proof -
  have "list_all (\<lambda>k. is_digit (digit_char k)) [0..<10]"
    by code_simp
  then have "is_digit (digit_char (n mod 10))"
    by (simp add: list_all_iff)
  then show ?thesis by (simp add: digit_char_def)
qed

lemma minus_not_digit: "\<not> is_digit (CHR ''-'')"
  by (simp add: is_digit_def)

lemma dot_not_digit: "\<not> is_digit (CHR ''.'')"
  by (simp add: is_digit_def)

lemma digits_val_snoc: "digits_val (ds @ [c]) = 10 * digits_val ds + digit_val c"
  by (simp add: digits_val_def)

lemma digits_val_digits_of_nat: "digits_val (digits_of_nat n) = n"
proof (induction n rule: digits_of_nat.induct)
  case (1 n)
  show ?case
  proof (cases "n < 10")
    case True
    then show ?thesis
      by (subst digits_of_nat.simps) (simp add: digits_val_def digit_val_digit_char)
  next
    case False
    then have "digits_val (digits_of_nat (n div 10)) = n div 10"
      using "1.IH" by simp
    with False show ?thesis
      by (subst digits_of_nat.simps) (simp add: digits_val_snoc digit_val_digit_char)
  qed
qed

lemma digits_of_nat_all_digits: "list_all is_digit (digits_of_nat n)"
proof (induction n rule: digits_of_nat.induct)
  case (1 n)
  then show ?case
    by (subst digits_of_nat.simps) (simp add: is_digit_digit_char)
qed

lemma digits_of_nat_nonempty: "digits_of_nat n \<noteq> []"
  by (subst digits_of_nat.simps) simp

lemma digits_val_zeros: "digits_val (replicate k (CHR ''0'') @ ds) = digits_val ds"
proof -
  have "foldl (\<lambda>a c. 10 * a + digit_val c) 0 (replicate k (CHR ''0'')) = 0"
    by (induction k) (simp_all add: digit_val_def)
  then show ?thesis by (simp add: digits_val_def)
qed

lemma parse_unsigned_digits:
  assumes "list_all is_digit ip" "ip \<noteq> []"
  shows "parse_unsigned ip = Some \<lparr>coeff = int (digits_val ip), scale = 0\<rparr>"
proof -
  have tw: "takeWhile is_digit ip = ip" and dw: "dropWhile is_digit ip = []"
    using assms by (simp_all add: list_all_iff)
  show ?thesis unfolding parse_unsigned_def Let_def tw dw using assms(2) by simp
qed

lemma parse_unsigned_frac:
  assumes "list_all is_digit ip" "ip \<noteq> []" "list_all is_digit fp" "fp \<noteq> []"
  shows "parse_unsigned (ip @ CHR ''.'' # fp) = Some \<lparr>coeff = int (digits_val (ip @ fp)), scale = length fp\<rparr>"
proof -
  have tw: "takeWhile is_digit (ip @ CHR ''.'' # fp) = ip"
    using assms by (simp add: list_all_iff dot_not_digit)
  have dw: "dropWhile is_digit (ip @ CHR ''.'' # fp) = CHR ''.'' # fp"
    using assms by (simp add: list_all_iff dot_not_digit)
  show ?thesis unfolding parse_unsigned_def Let_def tw dw using assms(2-4) by simp
qed

lemma zero_is_digit: "is_digit (CHR ''0'')"
  by (simp add: is_digit_def)

lemma parse_unsigned_fixed_text: "parse_unsigned (fixed_text c k) = Some \<lparr>coeff = int c, scale = k\<rparr>"
proof -
  define ds where "ds = digits_of_nat c"
  define padded where "padded = replicate (Suc k - length ds) (CHR ''0'') @ ds"
  define n where "n = length padded - k"
  have len: "length padded > k" unfolding padded_def by simp
  have dig: "list_all is_digit padded"
    unfolding padded_def ds_def using digits_of_nat_all_digits[of c] zero_is_digit
    by (auto simp: list_all_iff)
  have val: "digits_val padded = c"
    unfolding padded_def ds_def by (simp add: digits_val_zeros digits_val_digits_of_nat)
  have ip: "list_all is_digit (take n padded)" "take n padded \<noteq> []"
    using dig len by (auto simp: list_all_iff n_def dest: in_set_takeD)
  have fp: "list_all is_digit (drop n padded)" "length (drop n padded) = k"
    using dig len by (auto simp: list_all_iff n_def dest: in_set_dropD)
  have b: "fixed_text c k = take n padded @ (if k = 0 then [] else CHR ''.'' # drop n padded)"
    by (simp add: fixed_text_def Let_def ds_def padded_def n_def)
  show ?thesis
  proof (cases "k = 0")
    case True
    then have "n = length padded" by (simp add: n_def)
    then show ?thesis using True b parse_unsigned_digits[of padded] dig len val by simp
  next
    case False
    then have "drop n padded \<noteq> []" using fp by auto
    then show ?thesis
      using False b parse_unsigned_frac[OF ip fp(1)] fp(2) val by simp
  qed
qed

lemma fixed_text_first_digit: "\<exists>c r. fixed_text n k = c # r \<and> is_digit c"
proof -
  obtain d where d: "parse_unsigned (fixed_text n k) = Some d"
    using parse_unsigned_fixed_text by blast
  then have "takeWhile is_digit (fixed_text n k) \<noteq> []"
    by (auto simp: parse_unsigned_def Let_def split: if_splits)
  then show ?thesis
    by (cases "fixed_text n k") (auto split: if_splits)
qed

lemma NewDecFromString_String: "NewDecFromString (String d) = Inr d"
proof (cases "coeff d < 0")
  case True
  then show ?thesis
    by (simp add: String_def NewDecFromString_def parse_unsigned_fixed_text)
next
  case False
  obtain c r where cr: "fixed_text (nat \<bar>coeff d\<bar>) (scale d) = c # r" "is_digit c"
    using fixed_text_first_digit by blast
  then have "c \<noteq> CHR ''-''" using minus_not_digit by auto
  moreover have "parse_unsigned (c # r) = Some \<lparr>coeff = int (nat \<bar>coeff d\<bar>), scale = scale d\<rparr>"
    using parse_unsigned_fixed_text[of "nat \<bar>coeff d\<bar>" "scale d"] cr(1) by simp
  ultimately show ?thesis using False cr(1)
    by (simp add: String_def NewDecFromString_def)
qed

lemma amt_val_String: "amt_val (String d) = dec_val d"
  by (simp add: amt_val_def NewDecFromString_String)

lemma NonNegativeFixed_Inr:
  assumes "NewNonNegativeFixedDecFromString s p = Inr d"
  shows "NewDecFromString s = Inr d" and "0 \<le> coeff d" and "scale d \<le> p"
  using assms
  by (auto simp: NewNonNegativeFixedDecFromString_def NewNonNegativeDecFromString_def
      IsNegative_def split: sum.splits if_splits)

lemma NonNegativeFixed_amt_val:
  "NewNonNegativeFixedDecFromString s p = Inr d \<Longrightarrow> amt_val s = dec_val d"
  by (simp add: amt_val_def NonNegativeFixed_Inr(1))

lemma dec_val_rescale: "scale d \<le> k \<Longrightarrow> of_int (rescale d k) / 10 ^ k = dec_val d"
proof -
  assume "scale d \<le> k"
  then have "(10::rat) ^ k = 10 ^ (k - scale d) * 10 ^ scale d"
    by (simp flip: power_add)
  then show ?thesis by (simp add: rescale_def dec_val_def)
qed

lemma dec_val_Add: "Add x y = Inr z \<Longrightarrow> dec_val z = dec_val x + dec_val y"
proof -
  assume a: "Add x y = Inr z"
  define k where "k = max (scale x) (scale y)"
  have z: "z = \<lparr>coeff = rescale x k + rescale y k, scale = k\<rparr>"
    using a by (auto simp: Add_def Let_def k_def)
  have "dec_val z = of_int (rescale x k) / 10 ^ k + of_int (rescale y k) / 10 ^ k"
    by (simp add: z dec_val_def add_divide_distrib)
  then show ?thesis by (simp add: dec_val_rescale k_def)
qed

lemma dec_val_Sub: "Sub x y = Inr z \<Longrightarrow> dec_val z = dec_val x - dec_val y"
proof -
  assume a: "Sub x y = Inr z"
  define k where "k = max (scale x) (scale y)"
  have z: "z = \<lparr>coeff = rescale x k - rescale y k, scale = k\<rparr>"
    using a by (auto simp: Sub_def Let_def k_def)
  have "dec_val z = of_int (rescale x k) / 10 ^ k - of_int (rescale y k) / 10 ^ k"
    by (simp add: z dec_val_def diff_divide_distrib)
  then show ?thesis by (simp add: dec_val_rescale k_def)
qed

lemma dec_val_SafeSubBalance:
  "SafeSubBalance x y = Inr z \<Longrightarrow> dec_val z = dec_val x - dec_val y \<and> 0 \<le> coeff z"
  by (auto simp: SafeSubBalance_def IsNegative_def dec_val_Sub split: sum.splits if_splits)

lemma Add_total: "\<exists>z. Add x y = Inr z"
  by (simp add: Add_def Let_def)

lemma Sub_total: "\<exists>z. Sub x y = Inr z"
  by (simp add: Sub_def Let_def)

lemma IsZero_dec_val: "IsZero d \<longleftrightarrow> dec_val d = 0"
  by (simp add: IsZero_def dec_val_def)

text \<open>The examples the spec gives for the decimal engine.\<close>

lemma decimal_engine_examples:
  "NewNonNegativeFixedDecFromString ''10.5'' 2 = Inr \<lparr>coeff = 105, scale = 1\<rparr>"
  "String \<lparr>coeff = 105, scale = 1\<rparr> = ''10.5''"
  "NewNonNegativeFixedDecFromString ''10.555'' 2 = Inl PrecisionExceeded"
  "NewNonNegativeFixedDecFromString ''-1'' 2 = Inl InvalidAmount"
  "NewNonNegativeFixedDecFromString ''abc'' 2 = Inl InvalidAmount"
  by (simp_all add: NewNonNegativeFixedDecFromString_def NewNonNegativeDecFromString_def
      NewDecFromString_def parse_unsigned_def is_digit_def digits_val_def digit_val_def
      IsNegative_def String_def fixed_text_def digits_of_nat.simps digit_char_def)

section \<open>The steps of the protocols, characterised\<close>

lemma GetNonNegativeFixedDecs_Nil: "GetNonNegativeFixedDecs p [] = Inr ds \<longleftrightarrow> ds = []"
  by auto

lemma GetNonNegativeFixedDecs_Cons:
  "GetNonNegativeFixedDecs p (a # ss) = Inr ds \<longleftrightarrow>
     (\<exists>d ds'. ds = d # ds' \<and> NewNonNegativeFixedDecFromString a p = Inr d
        \<and> GetNonNegativeFixedDecs p ss = Inr ds')"
  by (auto split: sum.splits)

lemma table_Update_Inr:
  "table_Update t k v = Inr t' \<longleftrightarrow> (\<exists>old. map_of t k = Some old) \<and> t' = AList.update k v t"
  by (auto simp: table_Update_def split: option.splits)

lemma table_Update_Inl:
  "table_Update t k v = Inl e \<longleftrightarrow> map_of t k = None \<and> e = OrmNotFound"
  by (auto simp: table_Update_def split: option.splits)

lemma table_Get_Inr: "table_Get t k = Inr v \<longleftrightarrow> map_of t k = Some v"
  by (auto simp: table_Get_def split: option.splits)

lemma table_Get_Inl: "table_Get t k = Inl e \<longleftrightarrow> map_of t k = None \<and> e = OrmNotFound"
  by (auto simp: table_Get_def split: option.splits)

lemmas store_rules =
  GetNonNegativeFixedDecs_Nil GetNonNegativeFixedDecs_Cons
  table_Update_Inr table_Update_Inl table_Get_Inr table_Get_Inl table_Save_def update_conv'

lemma send_tradable_Inr:
  assumes "send_tradable f t a = Inr (f', t')"
  shows "dec_val f' = dec_val f - dec_val a" and "dec_val t' = dec_val t + dec_val a"
    and "IsZero a \<Longrightarrow> f' = f \<and> t' = t" and "0 \<le> coeff f \<Longrightarrow> 0 \<le> coeff f'"
  using assms
  by (auto simp: send_tradable_def IsZero_dec_val dec_val_Add dec_val_SafeSubBalance
      split: if_splits sum.splits)

lemma send_retired_Inr:
  assumes "send_retired f tr sr st a = Inr (did, f', tr', sr', st')"
  shows "did \<longleftrightarrow> \<not> IsZero a"
    and "dec_val f' = dec_val f - dec_val a" and "dec_val tr' = dec_val tr + dec_val a"
    and "dec_val sr' = dec_val sr + dec_val a" and "dec_val st' = dec_val st - dec_val a"
    and "IsZero a \<Longrightarrow> f' = f \<and> tr' = tr \<and> sr' = sr \<and> st' = st"
    and "0 \<le> coeff f \<Longrightarrow> 0 \<le> coeff f'"
  using assms
  by (auto simp: send_retired_def IsZero_dec_val dec_val_Add dec_val_Sub dec_val_SafeSubBalance
      split: if_splits sum.splits)

text \<open>A failing \<open>sendEcocredits\<close> has written nothing.\<close>

lemma sendEcocredits_Some:
  assumes "sendEcocredits x s credit to from = (s', Some e)"
  shows "s' = s"
  using assms
  by (simp add: sendEcocredits_def Let_def store_rules
      split: sum.splits if_splits prod.splits)

text \<open>What a successful \<open>sendEcocredits\<close> has read, computed and written.\<close>

lemma sendEcocredits_NoneE [consumes 1, case_names ok]:
  assumes "sendEcocredits x s credit to from = (s', None)"
  obtains batch creditType batchSupply fromBalance toBalance toT toR fromT fromR sendT sendR supT supR fromT1 toT1 didRetire fromT2 toR2 supR2 supT2
  where
    "GetByDenom s (sc_BatchDenom credit) = Inr batch"
    "GetCreditTypeFromBatchDenom s (b_Denom batch) = Inr creditType"
    "map_of (BatchSupplyTable s) (b_Key batch) = Some batchSupply"
    "map_of (BatchBalanceTable s) (from, b_Key batch) = Some fromBalance"
    "get_toBalance s to (b_Key batch) = Inr toBalance"
    "NewNonNegativeFixedDecFromString (bb_TradableAmount toBalance) (ct_Precision creditType) = Inr toT"
    "NewNonNegativeFixedDecFromString (bb_RetiredAmount toBalance) (ct_Precision creditType) = Inr toR"
    "NewNonNegativeFixedDecFromString (bb_TradableAmount fromBalance) (ct_Precision creditType) = Inr fromT"
    "NewNonNegativeFixedDecFromString (bb_RetiredAmount fromBalance) (ct_Precision creditType) = Inr fromR"
    "NewNonNegativeFixedDecFromString (sc_TradableAmount credit) (ct_Precision creditType) = Inr sendT"
    "NewNonNegativeFixedDecFromString (sc_RetiredAmount credit) (ct_Precision creditType) = Inr sendR"
    "NewNonNegativeFixedDecFromString (bs_TradableAmount batchSupply) (ct_Precision creditType) = Inr supT"
    "NewNonNegativeFixedDecFromString (bs_RetiredAmount batchSupply) (ct_Precision creditType) = Inr supR"
    "send_tradable fromT toT sendT = Inr (fromT1, toT1)"
    "send_retired fromT1 toR supR supT sendR = Inr (didRetire, fromT2, toR2, supR2, supT2)"
    "s' = s\<lparr>BatchBalanceTable :=
               AList.update (from, b_Key batch)
                 \<lparr>bb_BatchKey = b_Key batch, bb_Address = from,
                  bb_TradableAmount = String fromT2, bb_RetiredAmount = String fromR,
                  bb_EscrowedAmount = []\<rparr>
                 (AList.update (to, b_Key batch)
                    \<lparr>bb_BatchKey = b_Key batch, bb_Address = to,
                     bb_TradableAmount = String toT1, bb_RetiredAmount = String toR2,
                     bb_EscrowedAmount = []\<rparr>
                    (BatchBalanceTable s)),
             BatchSupplyTable :=
               (if didRetire
                then AList.update (b_Key batch)
                       \<lparr>bs_BatchKey = b_Key batch, bs_TradableAmount = String supT2,
                        bs_RetiredAmount = String supR2,
                        bs_CancelledAmount = bs_CancelledAmount batchSupply\<rparr>
                       (BatchSupplyTable s)
                else BatchSupplyTable s),
             events :=
               (if didRetire
                then events s @ [EventRetire (AccAddressString x to) (sc_BatchDenom credit)
                                   (String sendR) (sc_RetirementJurisdiction credit)]
                else events s)\<rparr>"
  using assms
  by (auto simp: sendEcocredits_def Let_def store_rules
      split: sum.splits if_splits prod.splits intro!: that)

text \<open>A failing iteration of \<open>Retire\<close> or of \<open>Cancel\<close> has written nothing.\<close>

lemma Retire_iteration_Some:
  assumes "Retire_iteration x req owner s credit = (s', Some e)"
  shows "s' = s"
  using assms
  by (simp add: Retire_iteration_def Let_def store_rules split: sum.splits if_splits)

lemma Cancel_iteration_Some:
  assumes "Cancel_iteration x req owner s credit = (s', Some e)"
  shows "s' = s"
  using assms
  by (simp add: Cancel_iteration_def Let_def store_rules split: sum.splits if_splits)

lemma Retire_iteration_NoneE [consumes 1, case_names ok]:
  assumes "Retire_iteration x req owner s credit = (s', None)"
  obtains batch creditType userBalance batchSupply amt userT userT1 userR userR1 supR supT supR1 supT1
  where
    "GetByDenom s (cr_BatchDenom credit) = Inr batch"
    "GetCreditTypeFromBatchDenom s (b_Denom batch) = Inr creditType"
    "map_of (BatchBalanceTable s) (owner, b_Key batch) = Some userBalance"
    "map_of (BatchSupplyTable s) (b_Key batch) = Some batchSupply"
    "NewNonNegativeFixedDecFromString (cr_Amount credit) (ct_Precision creditType) = Inr amt"
    "NewNonNegativeFixedDecFromString (bb_TradableAmount userBalance) (ct_Precision creditType) = Inr userT"
    "NewNonNegativeFixedDecFromString (bb_RetiredAmount userBalance) (ct_Precision creditType) = Inr userR"
    "NewNonNegativeFixedDecFromString (bs_RetiredAmount batchSupply) (ct_Precision creditType) = Inr supR"
    "NewNonNegativeFixedDecFromString (bs_TradableAmount batchSupply) (ct_Precision creditType) = Inr supT"
    "SafeSubBalance userT amt = Inr userT1"
    "Add userR amt = Inr userR1"
    "Add supR amt = Inr supR1"
    "SafeSubBalance supT amt = Inr supT1"
    "s' = s\<lparr>BatchBalanceTable :=
               AList.update (owner, b_Key batch)
                 \<lparr>bb_BatchKey = b_Key batch, bb_Address = owner,
                  bb_TradableAmount = String userT1, bb_RetiredAmount = String userR1,
                  bb_EscrowedAmount = []\<rparr>
                 (BatchBalanceTable s),
             BatchSupplyTable :=
               AList.update (b_Key batch)
                 \<lparr>bs_BatchKey = b_Key batch, bs_TradableAmount = String supT1,
                  bs_RetiredAmount = String supR1,
                  bs_CancelledAmount = bs_CancelledAmount batchSupply\<rparr>
                 (BatchSupplyTable s),
             events := events s @
               [EventRetire (mr_Owner req) (cr_BatchDenom credit) (cr_Amount credit)
                  (mr_Jurisdiction req)],
             gas := gas s + GasCostPerIteration x\<rparr>"
  using assms
  by (auto simp: Retire_iteration_def Let_def store_rules
      split: sum.splits if_splits intro!: that)

lemma Cancel_iteration_NoneE [consumes 1, case_names ok]:
  assumes "Cancel_iteration x req owner s credit = (s', None)"
  obtains batch creditType userBalance batchSupply amt supT userT cancelled userT1 supT1 cancelled1
  where
    "GetByDenom s (cr_BatchDenom credit) = Inr batch"
    "GetCreditTypeFromBatchDenom s (b_Denom batch) = Inr creditType"
    "map_of (BatchBalanceTable s) (owner, b_Key batch) = Some userBalance"
    "map_of (BatchSupplyTable s) (b_Key batch) = Some batchSupply"
    "NewNonNegativeFixedDecFromString (cr_Amount credit) (ct_Precision creditType) = Inr amt"
    "NewNonNegativeFixedDecFromString (bs_TradableAmount batchSupply) (ct_Precision creditType) = Inr supT"
    "NewNonNegativeFixedDecFromString (bb_TradableAmount userBalance) (ct_Precision creditType) = Inr userT"
    "NewNonNegativeFixedDecFromString (bs_CancelledAmount batchSupply) (ct_Precision creditType) = Inr cancelled"
    "SafeSubBalance userT amt = Inr userT1"
    "SafeSubBalance supT amt = Inr supT1"
    "Add cancelled amt = Inr cancelled1"
    "s' = s\<lparr>BatchBalanceTable :=
               AList.update (owner, b_Key batch)
                 \<lparr>bb_BatchKey = b_Key batch, bb_Address = owner,
                  bb_TradableAmount = String userT1,
                  bb_RetiredAmount = bb_RetiredAmount userBalance,
                  bb_EscrowedAmount = []\<rparr>
                 (BatchBalanceTable s),
             BatchSupplyTable :=
               AList.update (b_Key batch)
                 \<lparr>bs_BatchKey = b_Key batch, bs_TradableAmount = String supT1,
                  bs_RetiredAmount = bs_RetiredAmount batchSupply,
                  bs_CancelledAmount = String cancelled1\<rparr>
                 (BatchSupplyTable s),
             events := events s @
               [EventCancel (AccAddressString x owner) (cr_BatchDenom credit)
                  (cr_Amount credit) (mc_Reason req)],
             gas := gas s + GasCostPerIteration x\<rparr>"
  using assms
  by (auto simp: Cancel_iteration_def Let_def store_rules
      split: sum.splits if_splits intro!: that)

section \<open>Evaluation on concrete inputs\<close>

lemmas parse_defs =
  NewNonNegativeFixedDecFromString_def NewNonNegativeDecFromString_def NewDecFromString_def
  parse_unsigned_def is_digit_def digits_val_def digit_val_def IsNegative_def

lemmas print_defs = String_def fixed_text_def digits_of_nat.simps digit_char_def

lemmas arith_defs =
  Add_def Sub_def SafeSubBalance_def SafeAddBalance_def rescale_def IsZero_def IsNegative_def
  Cmp_def

lemmas ex_defs =
  ex_state_def ex_supply_def ex_balance_def ex_send_def ex_credits_def ex_externals_def
  ex_decode_def ex_encode_def

lemmas store_defs =
  GetByDenom_def GetCreditTypeFromBatchDenom_def table_Get_def table_Save_def table_Update_def
  get_toBalance_def

lemmas send_defs = sendEcocredits_def send_tradable_def send_retired_def Let_def

lemmas genesis_defs =
  ValidateGenesis_def validateSupply_def parse_or_zero_def go_lookup_def NewDecFromInt64_def
  ex_genesis_def ex_gsupply_def ex_gbalance_def Let_def

section \<open>The supply record under \<open>Send\<close>\<close>

lemma amt_val_zero_IsZero:
  "NewNonNegativeFixedDecFromString s p = Inr d \<Longrightarrow> amt_val s = 0 \<longleftrightarrow> IsZero d"
  by (simp add: NonNegativeFixed_amt_val IsZero_dec_val)

text \<open>
  C8: a \<open>Send\<close> entry whose retired amount is zero leaves the table of the batch supplies as
  it is, so that no supply record is written and none of the three fields changes; the
  table differs afterwards only when retirement occurred, and then (as always) every
  supply record keeps its cancelled amount.
\<close>

theorem C8_send_supply_frame:
  assumes "sendEcocredits x s credit to from = (s', r)"
  shows "(amt_val (sc_RetiredAmount credit) = 0 \<longrightarrow> BatchSupplyTable s' = BatchSupplyTable s)
    \<and> (BatchSupplyTable s' \<noteq> BatchSupplyTable s \<longrightarrow>
          r = None \<and> amt_val (sc_RetiredAmount credit) \<noteq> 0)
    \<and> (\<forall>k. map_option bs_CancelledAmount (map_of (BatchSupplyTable s') k)
            = map_option bs_CancelledAmount (map_of (BatchSupplyTable s) k))"
proof (cases r)
  case (Some e)
  then have "s' = s" using assms sendEcocredits_Some by blast
  then show ?thesis by simp
next
  case None
  with assms have "sendEcocredits x s credit to from = (s', None)" by simp
  then show ?thesis
  proof (cases rule: sendEcocredits_NoneE)
    case (ok batch creditType batchSupply fromBalance toBalance toT toR fromT fromR sendT sendR
        supT supR fromT1 toT1 didRetire fromT2 toR2 supR2 supT2)
    note sup = ok(3) and parse = ok(11) and ret = ok(15) and st = ok(16)
    have did: "didRetire \<longleftrightarrow> amt_val (sc_RetiredAmount credit) \<noteq> 0"
      using send_retired_Inr(1) [OF ret] amt_val_zero_IsZero [OF parse] by simp
    have frame: "map_option bs_CancelledAmount (map_of (BatchSupplyTable s') k)
        = map_option bs_CancelledAmount (map_of (BatchSupplyTable s) k)" for k
      using sup by (simp add: st update_conv')
    have same: "\<not> didRetire \<Longrightarrow> BatchSupplyTable s' = BatchSupplyTable s"
      by (simp add: st)
    show ?thesis using did same frame None by auto
  qed
qed

theorem C8_witness:
  "sendEcocredits ex_externals
     (ex_state [ex_supply ''100.00'' ''0'' ''7''] [ex_balance ''alice'' ''100.00'' ''0'' []])
     (ex_send ''30.00'' ''0'') ''bob'' ''alice''
   = (ex_state [ex_supply ''100.00'' ''0'' ''7'']
        [ex_balance ''alice'' ''70.00'' ''0'' [], ex_balance ''bob'' ''30.00'' ''0'' []], None)
   \<and> amt_val (sc_RetiredAmount (ex_send ''30.00'' ''0'')) = 0
   \<and> BatchSupplyTable
        (ex_state [ex_supply ''100.00'' ''0'' ''7'']
           [ex_balance ''alice'' ''70.00'' ''0'' [], ex_balance ''bob'' ''30.00'' ''0'' []])
       = BatchSupplyTable
           (ex_state [ex_supply ''100.00'' ''0'' ''7''] [ex_balance ''alice'' ''100.00'' ''0'' []])"
proof -
  have run: "sendEcocredits ex_externals
     (ex_state [ex_supply ''100.00'' ''0'' ''7''] [ex_balance ''alice'' ''100.00'' ''0'' []])
     (ex_send ''30.00'' ''0'') ''bob'' ''alice''
   = (ex_state [ex_supply ''100.00'' ''0'' ''7'']
        [ex_balance ''alice'' ''70.00'' ''0'' [], ex_balance ''bob'' ''30.00'' ''0'' []], None)"
    by (simp add: send_defs ex_defs store_defs parse_defs print_defs arith_defs)
  have zero: "amt_val (sc_RetiredAmount (ex_send ''30.00'' ''0'')) = 0"
    by (simp add: ex_send_def amt_val_def parse_defs dec_val_def)
  show ?thesis using C8_send_supply_frame [OF run] run zero by blast
qed

section \<open>Conservation of the supply\<close>

lemma supply_total_update:
  assumes "map_of (BatchSupplyTable s) key = Some old"
    and "BatchSupplyTable s' = AList.update key new (BatchSupplyTable s)"
    and "amt_val (bs_TradableAmount new) + amt_val (bs_RetiredAmount new)
           + amt_val (bs_CancelledAmount new)
         = amt_val (bs_TradableAmount old) + amt_val (bs_RetiredAmount old)
           + amt_val (bs_CancelledAmount old)"
  shows "supply_total s' k = supply_total s k"
  using assms
  by (simp add: supply_total_def supply_tradable_def supply_retired_def supply_cancelled_def
      update_conv')

lemma supply_total_same:
  "BatchSupplyTable s' = BatchSupplyTable s \<Longrightarrow> supply_total s' k = supply_total s k"
  by (simp add: supply_total_def supply_tradable_def supply_retired_def supply_cancelled_def)

lemma sendEcocredits_supply_total:
  assumes "sendEcocredits x s credit to from = (s', r)"
  shows "supply_total s' k = supply_total s k"
proof (cases r)
  case (Some e)
  then have "s' = s" using assms sendEcocredits_Some by blast
  then show ?thesis by simp
next
  case None
  with assms have "sendEcocredits x s credit to from = (s', None)" by simp
  then show ?thesis
  proof (cases rule: sendEcocredits_NoneE)
    case (ok batch creditType batchSupply fromBalance toBalance toT toR fromT fromR sendT sendR
        supT supR fromT1 toT1 didRetire fromT2 toR2 supR2 supT2)
    note sup = ok(3) and pT = ok(12) and pR = ok(13) and ret = ok(15) and st = ok(16)
    show ?thesis
    proof (cases didRetire)
      case False
      then show ?thesis by (intro supply_total_same) (simp add: st)
    next
      case True
      have eq: "dec_val supT2 + dec_val supR2 = dec_val supT + dec_val supR"
        using send_retired_Inr(4,5) [OF ret] by simp
      show ?thesis
        apply (rule supply_total_update [OF sup])
         apply (simp add: st True)
        using eq NonNegativeFixed_amt_val [OF pT] NonNegativeFixed_amt_val [OF pR]
        apply (simp add: amt_val_String)
        done
    qed
  qed
qed

lemma Retire_iteration_supply_total:
  assumes "Retire_iteration x req owner s credit = (s', r)"
  shows "supply_total s' k = supply_total s k"
proof (cases r)
  case (Some e)
  then have "s' = s" using assms Retire_iteration_Some by blast
  then show ?thesis by simp
next
  case None
  with assms have "Retire_iteration x req owner s credit = (s', None)" by simp
  then show ?thesis
  proof (cases rule: Retire_iteration_NoneE)
    case (ok batch creditType userBalance batchSupply amt userT userT1 userR userR1
        supR supT supR1 supT1)
    note sup = ok(4) and pR = ok(8) and pT = ok(9) and add = ok(12) and sub = ok(13)
      and st = ok(14)
    have eq: "dec_val supT1 + dec_val supR1 = dec_val supT + dec_val supR"
      using dec_val_Add [OF add] dec_val_SafeSubBalance [OF sub] by simp
    show ?thesis
      apply (rule supply_total_update [OF sup])
       apply (simp add: st)
      using eq NonNegativeFixed_amt_val [OF pT] NonNegativeFixed_amt_val [OF pR]
      apply (simp add: amt_val_String)
      done
  qed
qed

lemma Cancel_iteration_supply_total:
  assumes "Cancel_iteration x req owner s credit = (s', r)"
  shows "supply_total s' k = supply_total s k"
proof (cases r)
  case (Some e)
  then have "s' = s" using assms Cancel_iteration_Some by blast
  then show ?thesis by simp
next
  case None
  with assms have "Cancel_iteration x req owner s credit = (s', None)" by simp
  then show ?thesis
  proof (cases rule: Cancel_iteration_NoneE)
    case (ok batch creditType userBalance batchSupply amt supT userT cancelled
        userT1 supT1 cancelled1)
    note sup = ok(4) and pT = ok(6) and pC = ok(8) and sub = ok(10) and add = ok(11)
      and st = ok(12)
    have eq: "dec_val supT1 + dec_val cancelled1 = dec_val supT + dec_val cancelled"
      using dec_val_Add [OF add] dec_val_SafeSubBalance [OF sub] by simp
    show ?thesis
      apply (rule supply_total_update [OF sup])
       apply (simp add: st)
      using eq NonNegativeFixed_amt_val [OF pT] NonNegativeFixed_amt_val [OF pC]
      apply (simp add: amt_val_String)
      done
  qed
qed

lemma supply_total_events_gas [simp]:
  "supply_total (s\<lparr>events := ev, gas := g\<rparr>) k = supply_total s k"
  by (simp add: supply_total_def supply_tradable_def supply_retired_def supply_cancelled_def)

lemma Send_loop_supply_total:
  "Send_loop x req recipient sender s credits = (s', r) \<Longrightarrow> supply_total s' k = supply_total s k"
proof (induction credits arbitrary: s)
  case Nil
  then show ?case by simp
next
  case (Cons credit rest)
  obtain s1 r1 where step: "sendEcocredits x s credit recipient sender = (s1, r1)"
    by (cases "sendEcocredits x s credit recipient sender")
  have s1: "supply_total s1 k = supply_total s k"
    using sendEcocredits_supply_total [OF step] .
  show ?case
  proof (cases r1)
    case (Some e)
    then show ?thesis using Cons.prems step s1 by simp
  next
    case None
    then show ?thesis using Cons.prems step s1 Cons.IH by fastforce
  qed
qed

lemma Retire_loop_supply_total:
  "Retire_loop x req owner s credits = (s', r) \<Longrightarrow> supply_total s' k = supply_total s k"
proof (induction credits arbitrary: s)
  case Nil
  then show ?case by simp
next
  case (Cons credit rest)
  obtain s1 r1 where step: "Retire_iteration x req owner s credit = (s1, r1)"
    by (cases "Retire_iteration x req owner s credit")
  have s1: "supply_total s1 k = supply_total s k"
    using Retire_iteration_supply_total [OF step] .
  show ?case
  proof (cases r1)
    case (Some e)
    then show ?thesis using Cons.prems step s1 by simp
  next
    case None
    then show ?thesis using Cons.prems step s1 Cons.IH by fastforce
  qed
qed

lemma Cancel_loop_supply_total:
  "Cancel_loop x req owner s credits = (s', r) \<Longrightarrow> supply_total s' k = supply_total s k"
proof (induction credits arbitrary: s)
  case Nil
  then show ?case by simp
next
  case (Cons credit rest)
  obtain s1 r1 where step: "Cancel_iteration x req owner s credit = (s1, r1)"
    by (cases "Cancel_iteration x req owner s credit")
  have s1: "supply_total s1 k = supply_total s k"
    using Cancel_iteration_supply_total [OF step] .
  show ?case
  proof (cases r1)
    case (Some e)
    then show ?thesis using Cons.prems step s1 by simp
  next
    case None
    then show ?thesis using Cons.prems step s1 Cons.IH by fastforce
  qed
qed

lemma apply_msg_supply_total:
  "apply_msg x s m = (s', r) \<Longrightarrow> supply_total s' k = supply_total s k"
proof (cases m)
  case (OpSend req)
  assume "apply_msg x s m = (s', r)"
  then show ?thesis
    using OpSend Send_loop_supply_total by (simp add: Send_def Let_def)
next
  case (OpRetire req)
  assume "apply_msg x s m = (s', r)"
  then show ?thesis
    using OpRetire Retire_loop_supply_total by (simp add: Retire_def Let_def)
next
  case (OpCancel req)
  assume "apply_msg x s m = (s', r)"
  then show ?thesis
    using OpCancel Cancel_loop_supply_total
    by (auto simp: Cancel_def split: sum.splits)
qed

text \<open>
  C3: over every sequence of successful \<open>Send\<close>, \<open>Retire\<close> and \<open>Cancel\<close> operations, and for
  every batch, the sum of the tradable, retired and cancelled supply is the same at the end
  as at the start.
\<close>

theorem C3_supply_conserved:
  "run_msgs x s ms = Some s' \<Longrightarrow> supply_total s' k = supply_total s k"
proof (induction ms arbitrary: s)
  case Nil
  then show ?case by simp
next
  case (Cons m ms)
  obtain s1 r1 where step: "apply_msg x s m = (s1, r1)"
    by (cases "apply_msg x s m")
  with Cons.prems have r1: "r1 = None" and rest: "run_msgs x s1 ms = Some s'"
    by (auto split: option.splits)
  have "supply_total s1 k = supply_total s k"
    using apply_msg_supply_total [OF step] .
  then show ?case using Cons.IH [OF rest] by simp
qed

lemmas loop_defs =
  Send_def Retire_def Cancel_def Retire_iteration_def Cancel_iteration_def

theorem C3_witness:
  "run_msgs ex_externals
     (ex_state [ex_supply ''100.00'' ''0'' ''0''] [ex_balance ''alice'' ''100.00'' ''0'' []])
     ex_msgs
   = Some ((ex_state [ex_supply ''84.50'' ''15.00'' ''0.5'']
              [ex_balance ''alice'' ''59.50'' ''0'' [], ex_balance ''bob'' ''25.00'' ''15.00'' []])
           \<lparr>events := [EventRetire ''bob'' ''C01-001'' ''10.00'' ''US'',
                       EventTransfer ''alice'' ''bob'' ''C01-001'' ''30.00'' ''10.00'',
                       EventRetire ''bob'' ''C01-001'' ''5'' ''US'',
                       EventCancel ''alice'' ''C01-001'' ''0.5'' ''bridge''],
             gas := 30\<rparr>)
   \<and> supply_total
        ((ex_state [ex_supply ''84.50'' ''15.00'' ''0.5'']
              [ex_balance ''alice'' ''59.50'' ''0'' [], ex_balance ''bob'' ''25.00'' ''15.00'' []])
           \<lparr>events := [EventRetire ''bob'' ''C01-001'' ''10.00'' ''US'',
                       EventTransfer ''alice'' ''bob'' ''C01-001'' ''30.00'' ''10.00'',
                       EventRetire ''bob'' ''C01-001'' ''5'' ''US'',
                       EventCancel ''alice'' ''C01-001'' ''0.5'' ''bridge''],
             gas := 30\<rparr>) 1
     = supply_total
         (ex_state [ex_supply ''100.00'' ''0'' ''0''] [ex_balance ''alice'' ''100.00'' ''0'' []]) 1
   \<and> supply_total
         (ex_state [ex_supply ''100.00'' ''0'' ''0''] [ex_balance ''alice'' ''100.00'' ''0'' []]) 1
     = 100"
proof -
  have run: "run_msgs ex_externals
     (ex_state [ex_supply ''100.00'' ''0'' ''0''] [ex_balance ''alice'' ''100.00'' ''0'' []])
     ex_msgs
   = Some ((ex_state [ex_supply ''84.50'' ''15.00'' ''0.5'']
              [ex_balance ''alice'' ''59.50'' ''0'' [], ex_balance ''bob'' ''25.00'' ''15.00'' []])
           \<lparr>events := [EventRetire ''bob'' ''C01-001'' ''10.00'' ''US'',
                       EventTransfer ''alice'' ''bob'' ''C01-001'' ''30.00'' ''10.00'',
                       EventRetire ''bob'' ''C01-001'' ''5'' ''US'',
                       EventCancel ''alice'' ''C01-001'' ''0.5'' ''bridge''],
             gas := 30\<rparr>)"
    by (simp add: ex_msgs_def loop_defs send_defs ex_defs store_defs parse_defs print_defs
        arith_defs)
  have start: "supply_total
         (ex_state [ex_supply ''100.00'' ''0'' ''0''] [ex_balance ''alice'' ''100.00'' ''0'' []]) 1
     = 100"
    by (simp add: supply_total_def supply_tradable_def supply_retired_def supply_cancelled_def
        ex_defs amt_val_def parse_defs dec_val_def)
  show ?thesis using C3_supply_conserved [OF run, of 1] run start by simp
qed

section \<open>Missing balance records in \<open>Send\<close>\<close>

lemma send_with_zero_balance:
  assumes "GetByDenom s (sc_BatchDenom credit) = Inr batch"
    and "map_of (BatchBalanceTable s) (to, b_Key batch) = None"
    and "map_of (BatchBalanceTable s) (from, b_Key batch) = Some fromBalance"
  shows "sendEcocredits x (with_zero_balance s to (b_Key batch)) credit to from
    = (case sendEcocredits x s credit to from of
         (s', None) \<Rightarrow> (s', None)
       | (s', Some e) \<Rightarrow> (with_zero_balance s to (b_Key batch), Some e))"
proof -
  have ne: "from \<noteq> to" using assms(2,3) by auto
  have fields:
    "BatchTable (with_zero_balance s to (b_Key batch)) = BatchTable s"
    "ProjectTable (with_zero_balance s to (b_Key batch)) = ProjectTable s"
    "ClassTable (with_zero_balance s to (b_Key batch)) = ClassTable s"
    "CreditTypeTable (with_zero_balance s to (b_Key batch)) = CreditTypeTable s"
    "BatchSupplyTable (with_zero_balance s to (b_Key batch)) = BatchSupplyTable s"
    by (simp_all add: with_zero_balance_def)
  have get: "GetByDenom (with_zero_balance s to (b_Key batch)) d = GetByDenom s d" for d
    unfolding GetByDenom_def fields ..
  have reads:
    "GetByDenom (with_zero_balance s to (b_Key batch)) (sc_BatchDenom credit) = Inr batch"
    "GetCreditTypeFromBatchDenom (with_zero_balance s to (b_Key batch)) (b_Denom batch)
      = GetCreditTypeFromBatchDenom s (b_Denom batch)"
    "BatchSupplyTable (with_zero_balance s to (b_Key batch)) = BatchSupplyTable s"
    unfolding GetCreditTypeFromBatchDenom_def get fields using assms(1) by simp_all
  have reads2:
    "table_Get (AList.update (to, b_Key batch) (zero_balance to (b_Key batch))
        (BatchBalanceTable s)) (from, b_Key batch) = Inr fromBalance"
    "get_toBalance (with_zero_balance s to (b_Key batch)) to (b_Key batch)
      = Inr (zero_balance to (b_Key batch))"
    "get_toBalance s to (b_Key batch) = Inr (zero_balance to (b_Key batch))"
    "table_Get (BatchBalanceTable s) (from, b_Key batch) = Inr fromBalance"
    using assms ne
    by (simp_all add: with_zero_balance_def get_toBalance_def table_Get_def table_Save_def
        update_conv' zero_balance_def)
  have tab: "BatchBalanceTable (with_zero_balance s to (b_Key batch))
      = AList.update (to, b_Key batch) (zero_balance to (b_Key batch)) (BatchBalanceTable s)"
    by (simp add: with_zero_balance_def table_Save_def)
  note known = sendEcocredits_def reads reads2 assms ne table_Save_def table_Update_def
    update_conv' Let_def tab
  show ?thesis
  proof (cases "GetCreditTypeFromBatchDenom s (b_Denom batch)")
    case c: (Inl e)
    show ?thesis
      by (simp add: known c del: GetNonNegativeFixedDecs.simps)
  next
    case ct: (Inr creditType)
    show ?thesis
    proof (cases "table_Get (BatchSupplyTable s) (b_Key batch)")
      case c: (Inl e)
      show ?thesis
        by (simp add: known ct c del: GetNonNegativeFixedDecs.simps)
    next
      case sup: (Inr batchSupply)
      show ?thesis
      proof (cases "GetNonNegativeFixedDecs (ct_Precision creditType)
             [bb_TradableAmount (zero_balance to (b_Key batch)),
              bb_RetiredAmount (zero_balance to (b_Key batch)),
              bb_TradableAmount fromBalance, bb_RetiredAmount fromBalance,
              sc_TradableAmount credit, sc_RetiredAmount credit,
              bs_TradableAmount batchSupply, bs_RetiredAmount batchSupply]")
        case c: (Inl e)
        show ?thesis
          by (simp add: known ct sup c del: GetNonNegativeFixedDecs.simps)
      next
        case decs: (Inr decs)
        show ?thesis
        proof (cases "send_tradable (decs ! 2) (decs ! 0) (decs ! 4)")
          case c: (Inl e)
          show ?thesis
            by (simp add: known ct sup decs c del: GetNonNegativeFixedDecs.simps)
        next
          case tr: (Inr ft)
          obtain f1 t1 where ft: "ft = (f1, t1)" by (cases ft)
          show ?thesis
          proof (cases "send_retired f1 (decs ! Suc 0) (decs ! 7) (decs ! 6) (decs ! 5)")
            case c: (Inl e)
            show ?thesis
              by (simp add: known ct sup decs tr ft c del: GetNonNegativeFixedDecs.simps)
          next
            case ret: (Inr res)
            obtain did f2 tr2 sr2 st2 where res: "res = (did, f2, tr2, sr2, st2)"
              by (cases res)
            have lookup: "map_of (BatchSupplyTable s) (b_Key batch) = Some batchSupply"
              using sup by (simp add: table_Get_Inr)
            show ?thesis
              by (simp add: known ct sup decs tr ft ret res lookup
                  del: GetNonNegativeFixedDecs.simps)
                 (simp add: with_zero_balance_def)
          qed
        qed
      qed
    qed
  qed
qed

text \<open>
  C7, as stated: a sender without a balance record makes the entry fail with an error of
  the not-found kind. At the input below the sender \<open>alice\<close> has no record and the entry
  fails with \<open>ErrInsufficientCredits\<close>: the code replaces the store's not-found error.
\<close>

theorem C7_counterexample:
  "map_of (BatchBalanceTable (ex_state [ex_supply ''100.00'' ''0'' ''0''] [])) (''alice'', 1) = None
   \<and> sendEcocredits ex_externals (ex_state [ex_supply ''100.00'' ''0'' ''0''] [])
         (ex_send ''1'' ''0'') ''bob'' ''alice''
       = (ex_state [ex_supply ''100.00'' ''0'' ''0''] [],
          Some (ErrInsufficientCredits ''you do not have any credits from batch''))
   \<and> ErrInsufficientCredits ''you do not have any credits from batch'' \<noteq> OrmNotFound"
  by (simp add: send_defs ex_defs store_defs)

text \<open>
  C7, amended: in \<open>Send\<close>, where the batch, its credit type and its supply are found, a sender
  without a balance record for the batch makes the entry fail with an error of the kind
  \<open>ErrInsufficientCredits\<close> and nothing is written; a recipient without a balance record
  is taken to have the all-zero balance, and the entry then has the outcome it has on the
  state that holds this all-zero record.
\<close>

theorem C7_send_missing_balances:
  assumes "GetByDenom s (sc_BatchDenom credit) = Inr batch"
    and "GetCreditTypeFromBatchDenom s (b_Denom batch) = Inr creditType"
    and "map_of (BatchSupplyTable s) (b_Key batch) = Some batchSupply"
  shows "(map_of (BatchBalanceTable s) (from, b_Key batch) = None \<longrightarrow>
            sendEcocredits x s credit to from
              = (s, Some (ErrInsufficientCredits ''you do not have any credits from batch'')))
    \<and> (map_of (BatchBalanceTable s) (to, b_Key batch) = None \<longrightarrow>
         map_of (BatchBalanceTable s) (from, b_Key batch) \<noteq> None \<longrightarrow>
           get_toBalance s to (b_Key batch) = Inr (zero_balance to (b_Key batch))
           \<and> sendEcocredits x (with_zero_balance s to (b_Key batch)) credit to from
               = (case sendEcocredits x s credit to from of
                    (s', None) \<Rightarrow> (s', None)
                  | (s', Some e) \<Rightarrow> (with_zero_balance s to (b_Key batch), Some e)))"
proof (intro conjI impI)
  assume "map_of (BatchBalanceTable s) (from, b_Key batch) = None"
  then show "sendEcocredits x s credit to from
      = (s, Some (ErrInsufficientCredits ''you do not have any credits from batch''))"
    using assms by (simp add: sendEcocredits_def table_Get_def)
next
  assume "map_of (BatchBalanceTable s) (to, b_Key batch) = None"
  then show "get_toBalance s to (b_Key batch) = Inr (zero_balance to (b_Key batch))"
    by (simp add: get_toBalance_def table_Get_def zero_balance_def)
next
  assume "map_of (BatchBalanceTable s) (to, b_Key batch) = None"
    and "map_of (BatchBalanceTable s) (from, b_Key batch) \<noteq> None"
  then show "sendEcocredits x (with_zero_balance s to (b_Key batch)) credit to from
      = (case sendEcocredits x s credit to from of
           (s', None) \<Rightarrow> (s', None)
         | (s', Some e) \<Rightarrow> (with_zero_balance s to (b_Key batch), Some e))"
    using send_with_zero_balance [OF assms(1)] by auto
qed

theorem C7_witness:
  "sendEcocredits ex_externals
     (ex_state [ex_supply ''100.00'' ''0'' ''0''] [ex_balance ''alice'' ''100.00'' ''0'' []])
     (ex_send ''30.00'' ''10.00'') ''bob'' ''carol''
   = (ex_state [ex_supply ''100.00'' ''0'' ''0''] [ex_balance ''alice'' ''100.00'' ''0'' []],
      Some (ErrInsufficientCredits ''you do not have any credits from batch''))
   \<and> sendEcocredits ex_externals
       (with_zero_balance
          (ex_state [ex_supply ''100.00'' ''0'' ''0''] [ex_balance ''alice'' ''100.00'' ''0'' []])
          ''bob'' 1)
       (ex_send ''30.00'' ''10.00'') ''bob'' ''alice''
     = ((ex_state [ex_supply ''90.00'' ''10.00'' ''0'']
           [ex_balance ''alice'' ''60.00'' ''0'' [], ex_balance ''bob'' ''30.00'' ''10.00'' []])
        \<lparr>events := [EventRetire ''bob'' ''C01-001'' ''10.00'' ''US'']\<rparr>, None)"
proof -
  let ?s = "ex_state [ex_supply ''100.00'' ''0'' ''0''] [ex_balance ''alice'' ''100.00'' ''0'' []]"
  let ?batch = "\<lparr>b_Key = 1, b_Issuer = ''issuer'', b_ProjectKey = 1, b_Denom = ''C01-001'',
                 b_StartDate = None, b_EndDate = None\<rparr>"
  have h1: "GetByDenom ?s (sc_BatchDenom (ex_send ''30.00'' ''10.00'')) = Inr ?batch"
    by (simp add: ex_defs store_defs)
  have h2: "GetCreditTypeFromBatchDenom ?s (b_Denom ?batch)
      = Inr \<lparr>ct_Abbreviation = ''C'', ct_Precision = 2\<rparr>"
    by (simp add: ex_defs store_defs)
  have h3: "map_of (BatchSupplyTable ?s) (b_Key ?batch)
      = Some (snd (ex_supply ''100.00'' ''0'' ''0''))"
    by (simp add: ex_defs)
  have carol: "map_of (BatchBalanceTable ?s) (''carol'', b_Key ?batch) = None"
    by (simp add: ex_defs)
  have bob: "map_of (BatchBalanceTable ?s) (''bob'', b_Key ?batch) = None"
    by (simp add: ex_defs)
  have alice: "map_of (BatchBalanceTable ?s) (''alice'', b_Key ?batch) \<noteq> None"
    by (simp add: ex_defs)
  have run: "sendEcocredits ex_externals ?s (ex_send ''30.00'' ''10.00'') ''bob'' ''alice''
      = ((ex_state [ex_supply ''90.00'' ''10.00'' ''0'']
            [ex_balance ''alice'' ''60.00'' ''0'' [], ex_balance ''bob'' ''30.00'' ''10.00'' []])
         \<lparr>events := [EventRetire ''bob'' ''C01-001'' ''10.00'' ''US'']\<rparr>, None)"
    by (simp add: send_defs ex_defs store_defs parse_defs print_defs arith_defs)
  have first: "sendEcocredits ex_externals ?s (ex_send ''30.00'' ''10.00'') ''bob'' ''carol''
      = (?s, Some (ErrInsufficientCredits ''you do not have any credits from batch''))"
    using C7_send_missing_balances [OF h1 h2 h3, of "''carol''" ex_externals "''bob''"] carol
    by blast
  have second: "sendEcocredits ex_externals (with_zero_balance ?s ''bob'' (b_Key ?batch))
        (ex_send ''30.00'' ''10.00'') ''bob'' ''alice''
      = (case sendEcocredits ex_externals ?s (ex_send ''30.00'' ''10.00'') ''bob'' ''alice'' of
           (s', None) \<Rightarrow> (s', None)
         | (s', Some e) \<Rightarrow> (with_zero_balance ?s ''bob'' (b_Key ?batch), Some e))"
    using C7_send_missing_balances [OF h1 h2 h3, of "''alice''" ex_externals "''bob''"] bob alice
    by blast
  show ?thesis using first second run by simp
qed

section \<open>Scenario A: a transfer that retires a part on receipt\<close>

lemma sendEcocredits_scenario_A:
  assumes ok: "sendEcocredits x s credit to from = (s', None)"
    and batch: "GetByDenom s (sc_BatchDenom credit) = Inr batch"
    and ctype: "GetCreditTypeFromBatchDenom s (b_Denom batch) = Inr creditType"
    and prec: "ct_Precision creditType = 2"
    and sender: "map_of (BatchBalanceTable s) (from, b_Key batch) = Some fromBalance"
    and hundred: "bb_TradableAmount fromBalance = ''100.00''"
    and recipient: "map_of (BatchBalanceTable s) (to, b_Key batch) = None"
    and tradable: "sc_TradableAmount credit = ''30.00''"
    and retired: "sc_RetiredAmount credit = ''10.00''"
  shows "map_option bb_TradableAmount (map_of (BatchBalanceTable s') (from, b_Key batch))
           = Some ''60.00''
    \<and> map_option bb_TradableAmount (map_of (BatchBalanceTable s') (to, b_Key batch))
           = Some ''30.00''
    \<and> map_option bb_RetiredAmount (map_of (BatchBalanceTable s') (to, b_Key batch))
           = Some ''10.00''
    \<and> supply_tradable s' (b_Key batch) = supply_tradable s (b_Key batch) - 10
    \<and> supply_retired s' (b_Key batch) = supply_retired s (b_Key batch) + 10"
  using ok
proof (cases rule: sendEcocredits_NoneE)
  case (ok batch' creditType' batchSupply fromBalance' toBalance toT toR fromT fromR sendT sendR
      supT supR fromT1 toT1 didRetire fromT2 toR2 supR2 supT2)
  have b: "batch' = batch" using ok(1) batch by simp
  have c: "creditType' = creditType" using ok(2) ctype b by simp
  have fb: "fromBalance' = fromBalance" using ok(4) sender b by simp
  have ne: "from \<noteq> to" using sender recipient by auto
  have tb: "toBalance = zero_balance to (b_Key batch)"
    using ok(5) recipient b by (simp add: get_toBalance_def table_Get_def zero_balance_def)
  have toT: "toT = \<lparr>coeff = 0, scale = 0\<rparr>"
    using ok(6) by (auto simp: tb zero_balance_def parse_defs)
  have toR: "toR = \<lparr>coeff = 0, scale = 0\<rparr>"
    using ok(7) by (auto simp: tb zero_balance_def parse_defs)
  have fromT: "fromT = \<lparr>coeff = 10000, scale = 2\<rparr>"
    using ok(8) by (auto simp: fb c prec hundred parse_defs)
  have sendT: "sendT = \<lparr>coeff = 3000, scale = 2\<rparr>"
    using ok(10) by (auto simp: c prec tradable parse_defs)
  have sendR: "sendR = \<lparr>coeff = 1000, scale = 2\<rparr>"
    using ok(11) by (auto simp: c prec retired parse_defs)
  have step1: "fromT1 = \<lparr>coeff = 7000, scale = 2\<rparr>" "toT1 = \<lparr>coeff = 3000, scale = 2\<rparr>"
    using ok(14) by (simp_all add: fromT toT sendT send_tradable_def arith_defs)
  have did: "didRetire"
    using send_retired_Inr(1) [OF ok(15)] by (simp add: sendR IsZero_def)
  have step2: "fromT2 = \<lparr>coeff = 6000, scale = 2\<rparr>" "toR2 = \<lparr>coeff = 1000, scale = 2\<rparr>"
    using ok(15) by (auto simp: step1 toR sendR send_retired_def arith_defs split: sum.splits)
  have delta: "dec_val supT2 = dec_val supT - 10" "dec_val supR2 = dec_val supR + 10"
    using send_retired_Inr(4,5) [OF ok(15)] by (simp_all add: sendR dec_val_def)
  have old: "supply_tradable s (b_Key batch) = dec_val supT"
    "supply_retired s (b_Key batch) = dec_val supR"
    using ok(3) NonNegativeFixed_amt_val [OF ok(12)] NonNegativeFixed_amt_val [OF ok(13)]
    by (simp_all add: b supply_tradable_def supply_retired_def)
  have p1: "String \<lparr>coeff = 6000, scale = 2\<rparr> = ''60.00''"
    and p2: "String \<lparr>coeff = 3000, scale = 2\<rparr> = ''30.00''"
    and p3: "String \<lparr>coeff = 1000, scale = 2\<rparr> = ''10.00''"
    by (simp_all add: print_defs)
  show ?thesis
    using ne delta old
    by (simp add: ok(16) b did step1 step2 p1 p2 p3 update_conv' supply_tradable_def
        supply_retired_def amt_val_String)
qed

lemma Send_single:
  assumes "Send x s req = (s', None)" and "ms_Credits req = [credit]"
    and "AccAddressFromBech32 x (ms_Sender req) = Inr from"
    and "AccAddressFromBech32 x (ms_Recipient req) = Inr to"
  obtains s1 where "sendEcocredits x s credit to from = (s1, None)"
    and "BatchBalanceTable s' = BatchBalanceTable s1"
    and "BatchSupplyTable s' = BatchSupplyTable s1"
proof -
  obtain s1 r1 where step: "sendEcocredits x s credit to from = (s1, r1)"
    by (cases "sendEcocredits x s credit to from")
  show thesis
  proof (cases r1)
    case (Some e)
    then show ?thesis using assms step by (simp add: Send_def)
  next
    case None
    then show ?thesis using assms step by (intro that [of s1]) (auto simp: Send_def)
  qed
qed

text \<open>
  C2: the batch has precision 2, the sender holds the tradable balance \<open>100.00\<close>, the
  recipient holds no record of the batch, and the entry sends \<open>30.00\<close> tradable and
  \<open>10.00\<close> retired. After a successful \<open>Send\<close> of this one entry the sender's tradable balance is
  \<open>60.00\<close>, the recipient's tradable balance is \<open>30.00\<close> and retired balance \<open>10.00\<close>,
  the tradable supply of the batch has gone down by 10 and its retired supply up by 10.
\<close>


theorem C2_scenario_A:
  assumes ok: "Send x s req = (s', None)"
    and single: "ms_Credits req = [credit]"
    and senderAddr: "AccAddressFromBech32 x (ms_Sender req) = Inr sender"
    and recipientAddr: "AccAddressFromBech32 x (ms_Recipient req) = Inr recipient"
    and batch: "GetByDenom s (sc_BatchDenom credit) = Inr batch"
    and ctype: "GetCreditTypeFromBatchDenom s (b_Denom batch) = Inr creditType"
    and prec: "ct_Precision creditType = 2"
    and senderBalance: "map_of (BatchBalanceTable s) (sender, b_Key batch) = Some fromBalance"
    and hundred: "bb_TradableAmount fromBalance = ''100.00''"
    and recipientBalance: "map_of (BatchBalanceTable s) (recipient, b_Key batch) = None"
    and tradable: "sc_TradableAmount credit = ''30.00''"
    and retired: "sc_RetiredAmount credit = ''10.00''"
  shows "map_option bb_TradableAmount (map_of (BatchBalanceTable s') (sender, b_Key batch))
           = Some ''60.00''
    \<and> map_option bb_TradableAmount (map_of (BatchBalanceTable s') (recipient, b_Key batch))
           = Some ''30.00''
    \<and> map_option bb_RetiredAmount (map_of (BatchBalanceTable s') (recipient, b_Key batch))
           = Some ''10.00''
    \<and> supply_tradable s' (b_Key batch) = supply_tradable s (b_Key batch) - 10
    \<and> supply_retired s' (b_Key batch) = supply_retired s (b_Key batch) + 10"
proof -
  obtain s1 where step: "sendEcocredits x s credit recipient sender = (s1, None)"
    and bal: "BatchBalanceTable s' = BatchBalanceTable s1"
    and sup: "BatchSupplyTable s' = BatchSupplyTable s1"
    using Send_single [OF ok single senderAddr recipientAddr] by blast
  have same: "supply_tradable s' k = supply_tradable s1 k"
    "supply_retired s' k = supply_retired s1 k" for k
    by (simp_all add: supply_tradable_def supply_retired_def sup)
  show ?thesis
    using sendEcocredits_scenario_A [OF step batch ctype prec senderBalance hundred
        recipientBalance tradable retired]
    by (simp add: bal same)
qed

theorem C2_witness:
  "Send ex_externals
     (ex_state [ex_supply ''100.00'' ''0'' ''0''] [ex_balance ''alice'' ''100.00'' ''0'' []])
     \<lparr>ms_Sender = ''alice'', ms_Recipient = ''bob'', ms_Credits = [ex_send ''30.00'' ''10.00'']\<rparr>
   = ((ex_state [ex_supply ''90.00'' ''10.00'' ''0'']
         [ex_balance ''alice'' ''60.00'' ''0'' [], ex_balance ''bob'' ''30.00'' ''10.00'' []])
      \<lparr>events := [EventRetire ''bob'' ''C01-001'' ''10.00'' ''US'',
                  EventTransfer ''alice'' ''bob'' ''C01-001'' ''30.00'' ''10.00''],
        gas := 10\<rparr>, None)
   \<and> supply_tradable
        ((ex_state [ex_supply ''90.00'' ''10.00'' ''0'']
           [ex_balance ''alice'' ''60.00'' ''0'' [], ex_balance ''bob'' ''30.00'' ''10.00'' []])
         \<lparr>events := [EventRetire ''bob'' ''C01-001'' ''10.00'' ''US'',
                     EventTransfer ''alice'' ''bob'' ''C01-001'' ''30.00'' ''10.00''],
           gas := 10\<rparr>) 1
       = supply_tradable
           (ex_state [ex_supply ''100.00'' ''0'' ''0''] [ex_balance ''alice'' ''100.00'' ''0'' []]) 1
         - 10"
proof -
  let ?s = "ex_state [ex_supply ''100.00'' ''0'' ''0''] [ex_balance ''alice'' ''100.00'' ''0'' []]"
  let ?req = "\<lparr>ms_Sender = ''alice'', ms_Recipient = ''bob'',
                ms_Credits = [ex_send ''30.00'' ''10.00'']\<rparr>"
  let ?batch = "\<lparr>b_Key = 1, b_Issuer = ''issuer'', b_ProjectKey = 1, b_Denom = ''C01-001'',
                 b_StartDate = None, b_EndDate = None\<rparr>"
  have run: "Send ex_externals ?s ?req
   = ((ex_state [ex_supply ''90.00'' ''10.00'' ''0'']
         [ex_balance ''alice'' ''60.00'' ''0'' [], ex_balance ''bob'' ''30.00'' ''10.00'' []])
      \<lparr>events := [EventRetire ''bob'' ''C01-001'' ''10.00'' ''US'',
                  EventTransfer ''alice'' ''bob'' ''C01-001'' ''30.00'' ''10.00''],
        gas := 10\<rparr>, None)"
    by (simp add: loop_defs send_defs ex_defs store_defs parse_defs print_defs arith_defs)
  have h: "ms_Credits ?req = [ex_send ''30.00'' ''10.00'']"
    "AccAddressFromBech32 ex_externals (ms_Sender ?req) = Inr ''alice''"
    "AccAddressFromBech32 ex_externals (ms_Recipient ?req) = Inr ''bob''"
    "GetByDenom ?s (sc_BatchDenom (ex_send ''30.00'' ''10.00'')) = Inr ?batch"
    "GetCreditTypeFromBatchDenom ?s (b_Denom ?batch)
      = Inr \<lparr>ct_Abbreviation = ''C'', ct_Precision = 2\<rparr>"
    "ct_Precision \<lparr>ct_Abbreviation = ''C'', ct_Precision = 2\<rparr> = 2"
    "map_of (BatchBalanceTable ?s) (''alice'', b_Key ?batch)
      = Some (snd (ex_balance ''alice'' ''100.00'' ''0'' []))"
    "bb_TradableAmount (snd (ex_balance ''alice'' ''100.00'' ''0'' [])) = ''100.00''"
    "map_of (BatchBalanceTable ?s) (''bob'', b_Key ?batch) = None"
    "sc_TradableAmount (ex_send ''30.00'' ''10.00'') = ''30.00''"
    "sc_RetiredAmount (ex_send ''30.00'' ''10.00'') = ''10.00''"
    by (simp_all add: ex_defs store_defs)
  show ?thesis
    using C2_scenario_A [OF run h] run by simp
qed

section \<open>The escrowed amount of the records written\<close>

text \<open>
  C9 at the failing inputs: \<open>alice\<close> holds 10 tradable and 5 escrowed credits, \<open>bob\<close> holds
  2 tradable and 3 escrowed. Each of \<open>Cancel\<close>, \<open>Retire\<close> and \<open>Send\<close> writes the balance
  records it touches without an escrowed amount: the stored escrowed amount \<open>5\<close> (and \<open>3\<close>
  for the recipient of \<open>Send\<close>) is replaced by the empty string.
\<close>

theorem C9_escrowed_amount_reset:
  "Cancel ex_externals
     (ex_state [ex_supply ''15'' ''0'' ''0''] [ex_balance ''alice'' ''10'' ''0'' ''5''])
     \<lparr>mc_Owner = ''alice'', mc_Credits = [ex_credits ''1''], mc_Reason = ''reason''\<rparr>
   = ((ex_state [ex_supply ''14'' ''0'' ''1''] [ex_balance ''alice'' ''9'' ''0'' []])
      \<lparr>events := [EventCancel ''alice'' ''C01-001'' ''1'' ''reason''], gas := 10\<rparr>, None)
   \<and> Retire ex_externals
       (ex_state [ex_supply ''15'' ''0'' ''0''] [ex_balance ''alice'' ''10'' ''0'' ''5''])
       \<lparr>mr_Owner = ''alice'', mr_Credits = [ex_credits ''1''], mr_Jurisdiction = ''US''\<rparr>
     = ((ex_state [ex_supply ''14'' ''1'' ''0''] [ex_balance ''alice'' ''9'' ''1'' []])
        \<lparr>events := [EventRetire ''alice'' ''C01-001'' ''1'' ''US''], gas := 10\<rparr>, None)
   \<and> Send ex_externals
       (ex_state [ex_supply ''20'' ''0'' ''0'']
          [ex_balance ''alice'' ''10'' ''0'' ''5'', ex_balance ''bob'' ''2'' ''0'' ''3''])
       \<lparr>ms_Sender = ''alice'', ms_Recipient = ''bob'', ms_Credits = [ex_send ''1'' ''0'']\<rparr>
     = ((ex_state [ex_supply ''20'' ''0'' ''0'']
           [ex_balance ''alice'' ''9'' ''0'' [], ex_balance ''bob'' ''3'' ''0'' []])
        \<lparr>events := [EventTransfer ''alice'' ''bob'' ''C01-001'' ''1'' ''0''], gas := 10\<rparr>,
        None)"
  by (simp add: loop_defs send_defs ex_defs store_defs parse_defs print_defs arith_defs)

section \<open>The invariant between balances and supply\<close>

lemmas total_defs =
  supply_invariant_def holders_total_def basket_total_def balance_total_def denoms_of_key_def
  supply_tradable_def supply_retired_def supply_cancelled_def amt_val_def dec_val_def

text \<open>
  C1 at the failing input: \<open>alice\<close> holds 10 tradable and 5 escrowed credits of the batch,
  whose supply is 15 tradable. The invariant holds, and the genesis validation accepts
  these records. \<open>Cancel\<close> of 1 credit succeeds; afterwards
  the holders' total is 9 (the escrowed amount is gone from the record written) and the
  supply is 14, so the invariant does not hold any more.
\<close>

theorem C1_invariant_broken_by_cancel:
  "supply_invariant
     (ex_state [ex_supply ''15'' ''0'' ''0''] [ex_balance ''alice'' ''10'' ''0'' ''5'']) 1
   \<and> Cancel ex_externals
       (ex_state [ex_supply ''15'' ''0'' ''0''] [ex_balance ''alice'' ''10'' ''0'' ''5''])
       \<lparr>mc_Owner = ''alice'', mc_Credits = [ex_credits ''1''], mc_Reason = ''reason''\<rparr>
     = ((ex_state [ex_supply ''14'' ''0'' ''1''] [ex_balance ''alice'' ''9'' ''0'' []])
        \<lparr>events := [EventCancel ''alice'' ''C01-001'' ''1'' ''reason''], gas := 10\<rparr>, None)
   \<and> \<not> supply_invariant
         ((ex_state [ex_supply ''14'' ''0'' ''1''] [ex_balance ''alice'' ''9'' ''0'' []])
          \<lparr>events := [EventCancel ''alice'' ''C01-001'' ''1'' ''reason''], gas := 10\<rparr>) 1
   \<and> holders_total
         ((ex_state [ex_supply ''14'' ''0'' ''1''] [ex_balance ''alice'' ''9'' ''0'' []])
          \<lparr>events := [EventCancel ''alice'' ''C01-001'' ''1'' ''reason''], gas := 10\<rparr>) 1 = 9
   \<and> supply_tradable
         ((ex_state [ex_supply ''14'' ''0'' ''1''] [ex_balance ''alice'' ''9'' ''0'' []])
          \<lparr>events := [EventCancel ''alice'' ''C01-001'' ''1'' ''reason''], gas := 10\<rparr>) 1 = 14
   \<and> ValidateGenesis
       (ex_genesis [ex_gsupply 1 ''15'' ''0''] [ex_gbalance 1 ''alice'' ''10'' ''0'' ''5'']) = None"
proof -
  have genesis: "ValidateGenesis
       (ex_genesis [ex_gsupply 1 ''15'' ''0''] [ex_gbalance 1 ''alice'' ''10'' ''0'' ''5'']) = None"
    by (simp add: genesis_defs parse_defs arith_defs)
  have before: "supply_invariant
     (ex_state [ex_supply ''15'' ''0'' ''0''] [ex_balance ''alice'' ''10'' ''0'' ''5'']) 1"
    by (simp add: total_defs ex_defs parse_defs)
  have run: "Cancel ex_externals
       (ex_state [ex_supply ''15'' ''0'' ''0''] [ex_balance ''alice'' ''10'' ''0'' ''5''])
       \<lparr>mc_Owner = ''alice'', mc_Credits = [ex_credits ''1''], mc_Reason = ''reason''\<rparr>
     = ((ex_state [ex_supply ''14'' ''0'' ''1''] [ex_balance ''alice'' ''9'' ''0'' []])
        \<lparr>events := [EventCancel ''alice'' ''C01-001'' ''1'' ''reason''], gas := 10\<rparr>, None)"
    by (simp add: loop_defs ex_defs store_defs parse_defs print_defs arith_defs Let_def)
  have after: "holders_total
         ((ex_state [ex_supply ''14'' ''0'' ''1''] [ex_balance ''alice'' ''9'' ''0'' []])
          \<lparr>events := [EventCancel ''alice'' ''C01-001'' ''1'' ''reason''], gas := 10\<rparr>) 1 = 9"
    "supply_tradable
         ((ex_state [ex_supply ''14'' ''0'' ''1''] [ex_balance ''alice'' ''9'' ''0'' []])
          \<lparr>events := [EventCancel ''alice'' ''C01-001'' ''1'' ''reason''], gas := 10\<rparr>) 1 = 14"
    "supply_retired
         ((ex_state [ex_supply ''14'' ''0'' ''1''] [ex_balance ''alice'' ''9'' ''0'' []])
          \<lparr>events := [EventCancel ''alice'' ''C01-001'' ''1'' ''reason''], gas := 10\<rparr>) 1 = 0"
    "basket_total
         ((ex_state [ex_supply ''14'' ''0'' ''1''] [ex_balance ''alice'' ''9'' ''0'' []])
          \<lparr>events := [EventCancel ''alice'' ''C01-001'' ''1'' ''reason''], gas := 10\<rparr>) 1 = 0"
    by (simp_all add: total_defs ex_defs parse_defs)
  have broken: "\<not> supply_invariant
         ((ex_state [ex_supply ''14'' ''0'' ''1''] [ex_balance ''alice'' ''9'' ''0'' []])
          \<lparr>events := [EventCancel ''alice'' ''C01-001'' ''1'' ''reason''], gas := 10\<rparr>) 1"
    unfolding supply_invariant_def after by simp
  show ?thesis using before run after(1,2) broken genesis by simp
qed

lemma sum_list_update:
  fixes g :: "'v \<Rightarrow> rat"
  assumes "distinct (map fst T)"
  shows "sum_list (map (\<lambda>(k, v). g v) (filter (\<lambda>(k, v). P k) (AList.update key new T)))
    = sum_list (map (\<lambda>(k, v). g v) (filter (\<lambda>(k, v). P k) T))
      - (case map_of T key of None \<Rightarrow> 0 | Some old \<Rightarrow> if P key then g old else 0)
      + (if P key then g new else 0)"
  using assms
proof (induction T)
  case Nil
  then show ?case by simp
next
  case (Cons a T)
  obtain k v where a: "a = (k, v)" by (cases a)
  show ?case
  proof (cases "k = key")
    case True
    then have "map_of T key = None" using Cons.prems a by (simp add: map_of_eq_None_iff)
    then show ?thesis using True a by simp
  next
    case False
    then show ?thesis using Cons a by simp
  qed
qed

lemma set_update_subset: "set (AList.update key new T) \<subseteq> insert (key, new) (set T)"
  by (induction T) auto

lemma holders_total_update:
  assumes "distinct_keys s"
    and "BatchBalanceTable s' = AList.update (a, key) new (BatchBalanceTable s)"
  shows "holders_total s' k
    = holders_total s k
      - (case map_of (BatchBalanceTable s) (a, key) of
           None \<Rightarrow> 0
         | Some old \<Rightarrow> if key = k then balance_total old else 0)
      + (if key = k then balance_total new else 0)"
  using sum_list_update [of "BatchBalanceTable s" balance_total "\<lambda>kk. snd kk = k" "(a, key)" new]
    assms
  by (simp add: holders_total_def distinct_keys_def split: option.splits)

lemma distinct_keys_update:
  "distinct_keys s \<Longrightarrow> BatchBalanceTable s' = AList.update kk new (BatchBalanceTable s)
     \<Longrightarrow> distinct_keys s'"
  by (simp add: distinct_keys_def distinct_update)

lemma no_escrow_update:
  assumes "no_escrow s" and "BatchBalanceTable s' = AList.update kk new (BatchBalanceTable s)"
    and "amt_val (bb_EscrowedAmount new) = 0"
  shows "no_escrow s'"
  using assms set_update_subset [of kk new "BatchBalanceTable s"]
  by (auto simp: no_escrow_def list_all_iff)

lemma no_escrow_lookup:
  "no_escrow s \<Longrightarrow> map_of (BatchBalanceTable s) kk = Some b
     \<Longrightarrow> amt_val (bb_EscrowedAmount b) = 0"
  by (auto simp: no_escrow_def list_all_iff dest: map_of_SomeD)

lemma amt_val_empty: "amt_val [] = 0"
  by (simp add: amt_val_def NewDecFromString_def)

lemma basket_total_same:
  "BasketBalanceTable s' = BasketBalanceTable s \<Longrightarrow> BatchTable s' = BatchTable s
     \<Longrightarrow> basket_total s' k = basket_total s k"
  by (simp add: basket_total_def denoms_of_key_def)

lemma supply_after_update:
  assumes "BatchSupplyTable s' = AList.update key new (BatchSupplyTable s)"
  shows "supply_tradable s' k
      = (if k = key then amt_val (bs_TradableAmount new) else supply_tradable s k)"
    and "supply_retired s' k
      = (if k = key then amt_val (bs_RetiredAmount new) else supply_retired s k)"
  using assms by (simp_all add: supply_tradable_def supply_retired_def update_conv')

lemma supply_lookup:
  assumes "map_of (BatchSupplyTable s) key = Some old"
  shows "supply_tradable s key = amt_val (bs_TradableAmount old)"
    and "supply_retired s key = amt_val (bs_RetiredAmount old)"
  using assms by (simp_all add: supply_tradable_def supply_retired_def)

lemma Cancel_iteration_invariant:
  assumes ok: "Cancel_iteration x req owner s credit = (s', None)"
    and d: "distinct_keys s" and ne: "no_escrow s"
    and inv: "supply_invariant s k"
  shows "supply_invariant s' k \<and> distinct_keys s' \<and> no_escrow s'"
  using ok
proof (cases rule: Cancel_iteration_NoneE)
  case (ok batch creditType userBalance batchSupply amt supT userT cancelled
      userT1 supT1 cancelled1)
  let ?new = "\<lparr>bb_BatchKey = b_Key batch, bb_Address = owner,
      bb_TradableAmount = String userT1, bb_RetiredAmount = bb_RetiredAmount userBalance,
      bb_EscrowedAmount = []\<rparr>"
  let ?newsup = "\<lparr>bs_BatchKey = b_Key batch, bs_TradableAmount = String supT1,
      bs_RetiredAmount = bs_RetiredAmount batchSupply,
      bs_CancelledAmount = String cancelled1\<rparr>"
  have bal: "BatchBalanceTable s' = AList.update (owner, b_Key batch) ?new (BatchBalanceTable s)"
    and sup: "BatchSupplyTable s' = AList.update (b_Key batch) ?newsup (BatchSupplyTable s)"
    and other: "BasketBalanceTable s' = BasketBalanceTable s" "BatchTable s' = BatchTable s"
    by (simp_all add: ok(12))
  have esc: "amt_val (bb_EscrowedAmount userBalance) = 0"
    using no_escrow_lookup [OF ne ok(3)] .
  have holders: "holders_total s' k
      = holders_total s k - (if b_Key batch = k then dec_val amt else 0)"
    using holders_total_update [OF d bal, of k] ok(3) esc
      NonNegativeFixed_amt_val [OF ok(7)] dec_val_SafeSubBalance [OF ok(9)]
    by (simp add: balance_total_def amt_val_String amt_val_empty)
  have supply_sum: "supply_tradable s' k + supply_retired s' k
      = supply_tradable s k + supply_retired s k - (if b_Key batch = k then dec_val amt else 0)"
    using supply_after_update [OF sup, of k] supply_lookup [OF ok(4)]
      NonNegativeFixed_amt_val [OF ok(6)] dec_val_SafeSubBalance [OF ok(10)]
    by (auto simp: amt_val_String)
  have "supply_invariant s' k"
    using inv holders supply_sum basket_total_same [OF other]
    by (simp add: supply_invariant_def)
  moreover have "distinct_keys s'" using distinct_keys_update [OF d bal] .
  moreover have "no_escrow s'" using no_escrow_update [OF ne bal] by (simp add: amt_val_empty)
  ultimately show ?thesis by simp
qed

lemma Retire_iteration_invariant:
  assumes ok: "Retire_iteration x req owner s credit = (s', None)"
    and d: "distinct_keys s" and ne: "no_escrow s"
    and inv: "supply_invariant s k"
  shows "supply_invariant s' k \<and> distinct_keys s' \<and> no_escrow s'"
  using ok
proof (cases rule: Retire_iteration_NoneE)
  case (ok batch creditType userBalance batchSupply amt userT userT1 userR userR1
      supR supT supR1 supT1)
  let ?new = "\<lparr>bb_BatchKey = b_Key batch, bb_Address = owner,
      bb_TradableAmount = String userT1, bb_RetiredAmount = String userR1,
      bb_EscrowedAmount = []\<rparr>"
  let ?newsup = "\<lparr>bs_BatchKey = b_Key batch, bs_TradableAmount = String supT1,
      bs_RetiredAmount = String supR1,
      bs_CancelledAmount = bs_CancelledAmount batchSupply\<rparr>"
  have bal: "BatchBalanceTable s' = AList.update (owner, b_Key batch) ?new (BatchBalanceTable s)"
    and sup: "BatchSupplyTable s' = AList.update (b_Key batch) ?newsup (BatchSupplyTable s)"
    and other: "BasketBalanceTable s' = BasketBalanceTable s" "BatchTable s' = BatchTable s"
    by (simp_all add: ok(14))
  have esc: "amt_val (bb_EscrowedAmount userBalance) = 0"
    using no_escrow_lookup [OF ne ok(3)] .
  have holders: "holders_total s' k = holders_total s k"
    using holders_total_update [OF d bal, of k] ok(3) esc
      NonNegativeFixed_amt_val [OF ok(6)] NonNegativeFixed_amt_val [OF ok(7)]
      dec_val_SafeSubBalance [OF ok(10)] dec_val_Add [OF ok(11)]
    by (simp add: balance_total_def amt_val_String amt_val_empty)
  have supply_sum: "supply_tradable s' k + supply_retired s' k
      = supply_tradable s k + supply_retired s k"
    using supply_after_update [OF sup, of k] supply_lookup [OF ok(4)]
      NonNegativeFixed_amt_val [OF ok(8)] NonNegativeFixed_amt_val [OF ok(9)]
      dec_val_Add [OF ok(12)] dec_val_SafeSubBalance [OF ok(13)]
    by (auto simp: amt_val_String)
  have "supply_invariant s' k"
    using inv holders supply_sum basket_total_same [OF other]
    by (simp add: supply_invariant_def)
  moreover have "distinct_keys s'" using distinct_keys_update [OF d bal] .
  moreover have "no_escrow s'" using no_escrow_update [OF ne bal] by (simp add: amt_val_empty)
  ultimately show ?thesis by simp
qed

lemma get_toBalance_total:
  assumes "get_toBalance s to key = Inr toBalance" and "no_escrow s"
  shows "(case map_of (BatchBalanceTable s) (to, key) of
            None \<Rightarrow> 0
          | Some old \<Rightarrow> balance_total old)
    = amt_val (bb_TradableAmount toBalance) + amt_val (bb_RetiredAmount toBalance)"
proof (cases "map_of (BatchBalanceTable s) (to, key)")
  case None
  then have "toBalance = zero_balance to key"
    using assms(1) by (simp add: get_toBalance_def table_Get_def zero_balance_def)
  moreover have "amt_val ''0'' = 0"
    by (simp add: amt_val_def parse_defs dec_val_def)
  ultimately show ?thesis using None by (simp add: zero_balance_def)
next
  case (Some old)
  then have "toBalance = old"
    using assms(1) by (simp add: get_toBalance_def table_Get_def)
  then show ?thesis
    using Some no_escrow_lookup [OF assms(2) Some] by (simp add: balance_total_def)
qed

lemma sendEcocredits_invariant:
  assumes ok: "sendEcocredits x s credit to from = (s', None)"
    and d: "distinct_keys s" and ne: "no_escrow s" and diff: "from \<noteq> to"
    and inv: "supply_invariant s k"
  shows "supply_invariant s' k \<and> distinct_keys s' \<and> no_escrow s'"
  using ok
proof (cases rule: sendEcocredits_NoneE)
  case (ok batch creditType batchSupply fromBalance toBalance toT toR fromT fromR sendT sendR
      supT supR fromT1 toT1 didRetire fromT2 toR2 supR2 supT2)
  let ?newTo = "\<lparr>bb_BatchKey = b_Key batch, bb_Address = to,
      bb_TradableAmount = String toT1, bb_RetiredAmount = String toR2,
      bb_EscrowedAmount = []\<rparr>"
  let ?newFrom = "\<lparr>bb_BatchKey = b_Key batch, bb_Address = from,
      bb_TradableAmount = String fromT2, bb_RetiredAmount = String fromR,
      bb_EscrowedAmount = []\<rparr>"
  let ?newsup = "\<lparr>bs_BatchKey = b_Key batch, bs_TradableAmount = String supT2,
      bs_RetiredAmount = String supR2,
      bs_CancelledAmount = bs_CancelledAmount batchSupply\<rparr>"
  define s1 where "s1 = s\<lparr>BatchBalanceTable :=
      AList.update (to, b_Key batch) ?newTo (BatchBalanceTable s)\<rparr>"
  have bal1: "BatchBalanceTable s1 = AList.update (to, b_Key batch) ?newTo (BatchBalanceTable s)"
    by (simp add: s1_def)
  have bal2: "BatchBalanceTable s' = AList.update (from, b_Key batch) ?newFrom (BatchBalanceTable s1)"
    by (simp add: ok(16) s1_def)
  have sup: "BatchSupplyTable s' =
      (if didRetire then AList.update (b_Key batch) ?newsup (BatchSupplyTable s)
       else BatchSupplyTable s)"
    and other: "BasketBalanceTable s' = BasketBalanceTable s" "BatchTable s' = BatchTable s"
    by (simp_all add: ok(16))
  have d1: "distinct_keys s1" using distinct_keys_update [OF d bal1] .
  have ne1: "no_escrow s1" using no_escrow_update [OF ne bal1] by (simp add: amt_val_empty)
  have from1: "map_of (BatchBalanceTable s1) (from, b_Key batch) = Some fromBalance"
    using ok(4) diff by (simp add: bal1 update_conv')
  have esc: "amt_val (bb_EscrowedAmount fromBalance) = 0"
    using no_escrow_lookup [OF ne ok(4)] .
  have vals:
    "dec_val toT1 = dec_val toT + dec_val sendT"
    "dec_val toR2 = dec_val toR + dec_val sendR"
    "dec_val fromT2 = dec_val fromT - dec_val sendT - dec_val sendR"
    "dec_val supR2 = dec_val supR + dec_val sendR"
    "dec_val supT2 = dec_val supT - dec_val sendR"
    using send_tradable_Inr(1,2) [OF ok(14)] send_retired_Inr(2,3,4,5) [OF ok(15)]
    by simp_all
  have h1: "holders_total s1 k
      = holders_total s k + (if b_Key batch = k then dec_val sendT + dec_val sendR else 0)"
    using holders_total_update [OF d bal1, of k] get_toBalance_total [OF ok(5) ne]
      NonNegativeFixed_amt_val [OF ok(6)] NonNegativeFixed_amt_val [OF ok(7)] vals
    by (auto simp: balance_total_def amt_val_String amt_val_empty split: option.splits)
  have h2: "holders_total s' k
      = holders_total s1 k - (if b_Key batch = k then dec_val sendT + dec_val sendR else 0)"
    using holders_total_update [OF d1 bal2, of k] from1 esc
      NonNegativeFixed_amt_val [OF ok(8)] NonNegativeFixed_amt_val [OF ok(9)] vals
    by (simp add: balance_total_def amt_val_String amt_val_empty)
  have supply_sum: "supply_tradable s' k + supply_retired s' k
      = supply_tradable s k + supply_retired s k"
  proof (cases didRetire)
    case False
    then show ?thesis using sup by (simp add: supply_tradable_def supply_retired_def)
  next
    case True
    then have upd: "BatchSupplyTable s' = AList.update (b_Key batch) ?newsup (BatchSupplyTable s)"
      using sup by simp
    show ?thesis
      using supply_after_update [OF upd, of k] supply_lookup [OF ok(3)]
        NonNegativeFixed_amt_val [OF ok(12)] NonNegativeFixed_amt_val [OF ok(13)] vals
      by (auto simp: amt_val_String)
  qed
  have "supply_invariant s' k"
    using inv h1 h2 supply_sum basket_total_same [OF other]
    by (simp add: supply_invariant_def)
  moreover have "distinct_keys s'" using distinct_keys_update [OF d1 bal2] .
  moreover have "no_escrow s'" using no_escrow_update [OF ne1 bal2] by (simp add: amt_val_empty)
  ultimately show ?thesis by simp
qed
lemma invariant_events_gas [simp]:
  "supply_invariant (s\<lparr>events := ev, gas := g\<rparr>) k = supply_invariant s k"
  "distinct_keys (s\<lparr>events := ev, gas := g\<rparr>) = distinct_keys s"
  "no_escrow (s\<lparr>events := ev, gas := g\<rparr>) = no_escrow s"
  by (simp_all add: supply_invariant_def holders_total_def basket_total_def denoms_of_key_def
      supply_tradable_def supply_retired_def distinct_keys_def no_escrow_def)

lemma Send_loop_invariant:
  assumes "Send_loop x req recipient sender s credits = (s', None)"
    and "sender \<noteq> recipient"
    and "supply_invariant s k \<and> distinct_keys s \<and> no_escrow s"
  shows "supply_invariant s' k \<and> distinct_keys s' \<and> no_escrow s'"
  using assms
proof (induction credits arbitrary: s)
  case Nil
  then show ?case by simp
next
  case (Cons credit rest)
  obtain s1 r1 where step: "sendEcocredits x s credit recipient sender = (s1, r1)"
    by (cases "sendEcocredits x s credit recipient sender")
  with Cons.prems(1) have r1: "r1 = None" by (cases r1) simp_all
  have good: "supply_invariant s1 k \<and> distinct_keys s1 \<and> no_escrow s1"
    using sendEcocredits_invariant [of x s credit recipient sender s1 k] step r1 Cons.prems
    by simp
  show ?case
    using Cons.prems(1) step r1 good Cons.IH [OF _ Cons.prems(2)] by simp
qed

lemma Retire_loop_invariant:
  assumes "Retire_loop x req owner s credits = (s', None)"
    and "supply_invariant s k \<and> distinct_keys s \<and> no_escrow s"
  shows "supply_invariant s' k \<and> distinct_keys s' \<and> no_escrow s'"
  using assms
proof (induction credits arbitrary: s)
  case Nil
  then show ?case by simp
next
  case (Cons credit rest)
  obtain s1 r1 where step: "Retire_iteration x req owner s credit = (s1, r1)"
    by (cases "Retire_iteration x req owner s credit")
  with Cons.prems(1) have r1: "r1 = None" by (cases r1) simp_all
  have good: "supply_invariant s1 k \<and> distinct_keys s1 \<and> no_escrow s1"
    using Retire_iteration_invariant [of x req owner s credit s1 k] step r1 Cons.prems
    by simp
  show ?case
    using Cons.prems(1) step r1 good Cons.IH by simp
qed

lemma Cancel_loop_invariant:
  assumes "Cancel_loop x req owner s credits = (s', None)"
    and "supply_invariant s k \<and> distinct_keys s \<and> no_escrow s"
  shows "supply_invariant s' k \<and> distinct_keys s' \<and> no_escrow s'"
  using assms
proof (induction credits arbitrary: s)
  case Nil
  then show ?case by simp
next
  case (Cons credit rest)
  obtain s1 r1 where step: "Cancel_iteration x req owner s credit = (s1, r1)"
    by (cases "Cancel_iteration x req owner s credit")
  with Cons.prems(1) have r1: "r1 = None" by (cases r1) simp_all
  have good: "supply_invariant s1 k \<and> distinct_keys s1 \<and> no_escrow s1"
    using Cancel_iteration_invariant [of x req owner s credit s1 k] step r1 Cons.prems
    by simp
  show ?case
    using Cons.prems(1) step r1 good Cons.IH by simp
qed

lemma apply_msg_invariant:
  assumes "apply_msg x s m = (s', None)" and "distinct_parties x m"
    and "supply_invariant s k \<and> distinct_keys s \<and> no_escrow s"
  shows "supply_invariant s' k \<and> distinct_keys s' \<and> no_escrow s'"
proof (cases m)
  case (OpSend req)
  then show ?thesis
    using assms Send_loop_invariant [of x req _ _ s "ms_Credits req" s' k]
    by (simp add: Send_def Let_def)
next
  case (OpRetire req)
  then show ?thesis
    using assms Retire_loop_invariant [of x req _ s "mr_Credits req" s' k]
    by (simp add: Retire_def Let_def)
next
  case (OpCancel req)
  then show ?thesis
    using assms Cancel_loop_invariant [of x req _ s "mc_Credits req" s' k]
    by (auto simp: Cancel_def split: sum.splits)
qed

text \<open>
  What holds of the invariant: on a state whose balance records hold no escrowed
  amount, every sequence of successful operations in which no \<open>Send\<close> has the sender as
  its recipient keeps the equality between the holders' balances, the basket balances and
  the supply, for every batch.
\<close>

theorem invariant_kept_without_escrow:
  assumes "run_msgs x s ms = Some s'" and "list_all (distinct_parties x) ms"
    and "distinct_keys s" and "no_escrow s" and "supply_invariant s k"
  shows "supply_invariant s' k"
proof -
  have "run_msgs x s ms = Some s' \<Longrightarrow> list_all (distinct_parties x) ms \<Longrightarrow>
      supply_invariant s k \<and> distinct_keys s \<and> no_escrow s \<Longrightarrow>
      supply_invariant s' k \<and> distinct_keys s' \<and> no_escrow s'"
  proof (induction ms arbitrary: s)
    case Nil
    then show ?case by simp
  next
    case (Cons m ms)
    obtain s1 r1 where step: "apply_msg x s m = (s1, r1)"
      by (cases "apply_msg x s m")
    with Cons.prems(1) have r1: "r1 = None" and rest: "run_msgs x s1 ms = Some s'"
      by (auto split: option.splits)
    have "supply_invariant s1 k \<and> distinct_keys s1 \<and> no_escrow s1"
      using apply_msg_invariant [of x s m s1 k] step r1 Cons.prems(2,3) by simp
    then show ?case using Cons.IH [OF rest] Cons.prems(2) by simp
  qed
  then show ?thesis using assms by simp
qed

lemma invariant_kept_without_escrow_example:
  "supply_invariant
     ((ex_state [ex_supply ''84.50'' ''15.00'' ''0.5'']
         [ex_balance ''alice'' ''59.50'' ''0'' [], ex_balance ''bob'' ''25.00'' ''15.00'' []])
      \<lparr>events := [EventRetire ''bob'' ''C01-001'' ''10.00'' ''US'',
                  EventTransfer ''alice'' ''bob'' ''C01-001'' ''30.00'' ''10.00'',
                  EventRetire ''bob'' ''C01-001'' ''5'' ''US'',
                  EventCancel ''alice'' ''C01-001'' ''0.5'' ''bridge''],
        gas := 30\<rparr>) 1"
proof -
  let ?s = "ex_state [ex_supply ''100.00'' ''0'' ''0''] [ex_balance ''alice'' ''100.00'' ''0'' []]"
  have run: "run_msgs ex_externals ?s ex_msgs
   = Some ((ex_state [ex_supply ''84.50'' ''15.00'' ''0.5'']
              [ex_balance ''alice'' ''59.50'' ''0'' [], ex_balance ''bob'' ''25.00'' ''15.00'' []])
           \<lparr>events := [EventRetire ''bob'' ''C01-001'' ''10.00'' ''US'',
                       EventTransfer ''alice'' ''bob'' ''C01-001'' ''30.00'' ''10.00'',
                       EventRetire ''bob'' ''C01-001'' ''5'' ''US'',
                       EventCancel ''alice'' ''C01-001'' ''0.5'' ''bridge''],
             gas := 30\<rparr>)"
    by (simp add: ex_msgs_def loop_defs send_defs ex_defs store_defs parse_defs print_defs
        arith_defs)
  have parties: "list_all (distinct_parties ex_externals) ex_msgs"
    by (simp add: ex_msgs_def ex_defs)
  have start: "distinct_keys ?s" "no_escrow ?s" "supply_invariant ?s 1"
    by (simp_all add: distinct_keys_def no_escrow_def total_defs ex_defs parse_defs)
  show ?thesis
    using invariant_kept_without_escrow [OF run parties start] .
qed

text \<open>
  The condition on the parties of a \<open>Send\<close> cannot be dropped: when the recipient is the
  sender, the record written for the recipient is overwritten by the record written for
  the sender, and the tradable amount sent is gone from the balance while the supply stays.
\<close>

lemma Send_to_sender_itself:
  "Send ex_externals
     (ex_state [ex_supply ''10'' ''0'' ''0''] [ex_balance ''alice'' ''10'' ''0'' []])
     \<lparr>ms_Sender = ''alice'', ms_Recipient = ''alice'', ms_Credits = [ex_send ''3'' ''0'']\<rparr>
   = ((ex_state [ex_supply ''10'' ''0'' ''0''] [ex_balance ''alice'' ''7'' ''0'' []])
      \<lparr>events := [EventTransfer ''alice'' ''alice'' ''C01-001'' ''3'' ''0''], gas := 10\<rparr>,
      None)"
  by (simp add: loop_defs send_defs ex_defs store_defs parse_defs print_defs arith_defs)

section \<open>Negative amounts\<close>

text \<open>
  C4 at the failing input: the supply of the batch is 5 tradable and 10 retired, \<open>alice\<close>
  holds 10 tradable and 5 retired (the totals agree, which is all the genesis validation
  compares: it accepts these records). A \<open>Send\<close> that retires 10 on receipt succeeds and writes the tradable supply
  \<open>-5\<close>: the supply is lowered with \<open>Sub\<close>, not with \<open>SafeSubBalance\<close>. \<open>Retire\<close> of the same
  amount on the same state lowers the supply with \<open>SafeSubBalance\<close> and fails.
\<close>

theorem C4_send_negative_supply:
  "Send ex_externals
     (ex_state [ex_supply ''5'' ''10'' ''0''] [ex_balance ''alice'' ''10'' ''5'' []])
     \<lparr>ms_Sender = ''alice'', ms_Recipient = ''bob'', ms_Credits = [ex_send ''0'' ''10'']\<rparr>
   = ((ex_state [ex_supply ''-5'' ''20'' ''0'']
         [ex_balance ''alice'' ''0'' ''5'' [], ex_balance ''bob'' ''0'' ''10'' []])
      \<lparr>events := [EventRetire ''bob'' ''C01-001'' ''10'' ''US'',
                  EventTransfer ''alice'' ''bob'' ''C01-001'' ''0'' ''10''],
        gas := 10\<rparr>, None)
   \<and> amt_val ''-5'' = - 5
   \<and> Retire ex_externals
       (ex_state [ex_supply ''5'' ''10'' ''0''] [ex_balance ''alice'' ''10'' ''5'' []])
       \<lparr>mr_Owner = ''alice'', mr_Credits = [ex_credits ''10''], mr_Jurisdiction = ''US''\<rparr>
     = (ex_state [ex_supply ''5'' ''10'' ''0''] [ex_balance ''alice'' ''10'' ''5'' []],
        Some InsufficientBalance)
   \<and> ValidateGenesis
       (ex_genesis [ex_gsupply 1 ''5'' ''10''] [ex_gbalance 1 ''alice'' ''10'' ''5'' []]) = None"
  by (simp add: loop_defs send_defs ex_defs store_defs parse_defs print_defs arith_defs
      amt_val_def dec_val_def genesis_defs)

section \<open>A failing entry in a call of several entries\<close>

text \<open>
  C5, as stated: when an entry of a call fails, no balance or supply record differs from
  its state before the call, and no event has been emitted. At the input below the first
  entry of \<open>Cancel\<close> succeeds and the second fails: the state returned with the error holds
  the balance, the supply and the event of the first entry.
\<close>

theorem C5_counterexample:
  "Cancel ex_externals
     (ex_state [ex_supply ''100.00'' ''0'' ''0''] [ex_balance ''alice'' ''100.00'' ''0'' []])
     \<lparr>mc_Owner = ''alice'', mc_Credits = [ex_credits ''5.5'', ex_credits ''500''],
      mc_Reason = ''reason''\<rparr>
   = ((ex_state [ex_supply ''94.50'' ''0'' ''5.5''] [ex_balance ''alice'' ''94.50'' ''0'' []])
      \<lparr>events := [EventCancel ''alice'' ''C01-001'' ''5.5'' ''reason''], gas := 10\<rparr>,
      Some InsufficientBalance)
   \<and> BatchBalanceTable
       ((ex_state [ex_supply ''94.50'' ''0'' ''5.5''] [ex_balance ''alice'' ''94.50'' ''0'' []])
        \<lparr>events := [EventCancel ''alice'' ''C01-001'' ''5.5'' ''reason''], gas := 10\<rparr>)
     \<noteq> BatchBalanceTable
         (ex_state [ex_supply ''100.00'' ''0'' ''0''] [ex_balance ''alice'' ''100.00'' ''0'' []])
   \<and> events
       ((ex_state [ex_supply ''94.50'' ''0'' ''5.5''] [ex_balance ''alice'' ''94.50'' ''0'' []])
        \<lparr>events := [EventCancel ''alice'' ''C01-001'' ''5.5'' ''reason''], gas := 10\<rparr>)
     \<noteq> events
         (ex_state [ex_supply ''100.00'' ''0'' ''0''] [ex_balance ''alice'' ''100.00'' ''0'' []])"
  by (simp add: loop_defs ex_defs store_defs parse_defs print_defs arith_defs Let_def)

lemma Send_loop_failure:
  "Send_loop x req recipient sender s credits = (s', Some e) \<Longrightarrow>
     \<exists>n < length credits. Send_loop x req recipient sender s (take n credits) = (s', None)
       \<and> sendEcocredits x s' (credits ! n) recipient sender = (s', Some e)"
proof (induction credits arbitrary: s)
  case Nil
  then show ?case by simp
next
  case (Cons credit rest)
  obtain s1 r1 where step: "sendEcocredits x s credit recipient sender = (s1, r1)"
    by (cases "sendEcocredits x s credit recipient sender")
  show ?case
  proof (cases r1)
    case (Some e1)
    then have "s1 = s" using step sendEcocredits_Some by blast
    then have "Send_loop x req recipient sender s (take 0 (credit # rest)) = (s', None)
        \<and> sendEcocredits x s' ((credit # rest) ! 0) recipient sender = (s', Some e)"
      using Cons.prems step Some by simp
    then show ?thesis by blast
  next
    case None
    let ?s2 = "s1\<lparr>events := events s1 @
        [EventTransfer (ms_Sender req) (ms_Recipient req) (sc_BatchDenom credit)
           (sc_TradableAmount credit) (sc_RetiredAmount credit)],
        gas := gas s1 + GasCostPerIteration x\<rparr>"
    have "Send_loop x req recipient sender ?s2 rest = (s', Some e)"
      using Cons.prems step None by simp
    then obtain n where n: "n < length rest"
      "Send_loop x req recipient sender ?s2 (take n rest) = (s', None)"
      "sendEcocredits x s' (rest ! n) recipient sender = (s', Some e)"
      using Cons.IH by blast
    then have "Suc n < length (credit # rest)
        \<and> Send_loop x req recipient sender s (take (Suc n) (credit # rest)) = (s', None)
        \<and> sendEcocredits x s' ((credit # rest) ! Suc n) recipient sender = (s', Some e)"
      using step None by simp
    then show ?thesis by blast
  qed
qed

lemma Retire_loop_failure:
  "Retire_loop x req owner s credits = (s', Some e) \<Longrightarrow>
     \<exists>n < length credits. Retire_loop x req owner s (take n credits) = (s', None)
       \<and> Retire_iteration x req owner s' (credits ! n) = (s', Some e)"
proof (induction credits arbitrary: s)
  case Nil
  then show ?case by simp
next
  case (Cons credit rest)
  obtain s1 r1 where step: "Retire_iteration x req owner s credit = (s1, r1)"
    by (cases "Retire_iteration x req owner s credit")
  show ?case
  proof (cases r1)
    case (Some e1)
    then have "s1 = s" using step Retire_iteration_Some by blast
    then have "Retire_loop x req owner s (take 0 (credit # rest)) = (s', None)
        \<and> Retire_iteration x req owner s' ((credit # rest) ! 0) = (s', Some e)"
      using Cons.prems step Some by simp
    then show ?thesis by blast
  next
    case None
    have "Retire_loop x req owner s1 rest = (s', Some e)"
      using Cons.prems step None by simp
    then obtain n where n: "n < length rest"
      "Retire_loop x req owner s1 (take n rest) = (s', None)"
      "Retire_iteration x req owner s' (rest ! n) = (s', Some e)"
      using Cons.IH by blast
    then have "Suc n < length (credit # rest)
        \<and> Retire_loop x req owner s (take (Suc n) (credit # rest)) = (s', None)
        \<and> Retire_iteration x req owner s' ((credit # rest) ! Suc n) = (s', Some e)"
      using step None by simp
    then show ?thesis by blast
  qed
qed

lemma Cancel_loop_failure:
  "Cancel_loop x req owner s credits = (s', Some e) \<Longrightarrow>
     \<exists>n < length credits. Cancel_loop x req owner s (take n credits) = (s', None)
       \<and> Cancel_iteration x req owner s' (credits ! n) = (s', Some e)"
proof (induction credits arbitrary: s)
  case Nil
  then show ?case by simp
next
  case (Cons credit rest)
  obtain s1 r1 where step: "Cancel_iteration x req owner s credit = (s1, r1)"
    by (cases "Cancel_iteration x req owner s credit")
  show ?case
  proof (cases r1)
    case (Some e1)
    then have "s1 = s" using step Cancel_iteration_Some by blast
    then have "Cancel_loop x req owner s (take 0 (credit # rest)) = (s', None)
        \<and> Cancel_iteration x req owner s' ((credit # rest) ! 0) = (s', Some e)"
      using Cons.prems step Some by simp
    then show ?thesis by blast
  next
    case None
    have "Cancel_loop x req owner s1 rest = (s', Some e)"
      using Cons.prems step None by simp
    then obtain n where n: "n < length rest"
      "Cancel_loop x req owner s1 (take n rest) = (s', None)"
      "Cancel_iteration x req owner s' (rest ! n) = (s', Some e)"
      using Cons.IH by blast
    then have "Suc n < length (credit # rest)
        \<and> Cancel_loop x req owner s (take (Suc n) (credit # rest)) = (s', None)
        \<and> Cancel_iteration x req owner s' ((credit # rest) ! Suc n) = (s', Some e)"
      using step None by simp
    then show ?thesis by blast
  qed
qed

lemma Send_loop_request:
  "Send_loop x (req\<lparr>ms_Credits := cs\<rparr>) recipient sender s credits
     = Send_loop x req recipient sender s credits"
  by (induction credits arbitrary: s) (simp_all split: prod.splits option.splits)

lemma Retire_iteration_request:
  "Retire_iteration x (req\<lparr>mr_Credits := cs\<rparr>) owner s credit
     = Retire_iteration x req owner s credit"
  by (simp add: Retire_iteration_def cong: sum.case_cong)

lemma Retire_loop_request:
  "Retire_loop x (req\<lparr>mr_Credits := cs\<rparr>) owner s credits
     = Retire_loop x req owner s credits"
  by (induction credits arbitrary: s)
     (simp_all add: Retire_iteration_request split: prod.splits option.splits)

lemma Cancel_iteration_request:
  "Cancel_iteration x (req\<lparr>mc_Credits := cs\<rparr>) owner s credit
     = Cancel_iteration x req owner s credit"
  by (simp add: Cancel_iteration_def cong: sum.case_cong)

lemma Cancel_loop_request:
  "Cancel_loop x (req\<lparr>mc_Credits := cs\<rparr>) owner s credits
     = Cancel_loop x req owner s credits"
  by (induction credits arbitrary: s)
     (simp_all add: Cancel_iteration_request split: prod.splits option.splits)

lemma Send_loop_append:
  "Send_loop x req recipient sender s (before @ after) =
     (case Send_loop x req recipient sender s before of
        (s1, Some err) \<Rightarrow> (s1, Some err)
      | (s1, None) \<Rightarrow> Send_loop x req recipient sender s1 after)"
  by (induction before arbitrary: s) (simp_all split: prod.splits option.splits)

lemma Retire_loop_append:
  "Retire_loop x req owner s (before @ after) =
     (case Retire_loop x req owner s before of
        (s1, Some err) \<Rightarrow> (s1, Some err)
      | (s1, None) \<Rightarrow> Retire_loop x req owner s1 after)"
  by (induction before arbitrary: s) (simp_all split: prod.splits option.splits)

lemma Cancel_loop_append:
  "Cancel_loop x req owner s (before @ after) =
     (case Cancel_loop x req owner s before of
        (s1, Some err) \<Rightarrow> (s1, Some err)
      | (s1, None) \<Rightarrow> Cancel_loop x req owner s1 after)"
  by (induction before arbitrary: s) (simp_all split: prod.splits option.splits)

text \<open>
  The failing entry of a loop: the entries before it succeed and leave the state returned,
  the entry itself fails on that state with the error returned and leaves it as it is, and
  the loop stops there, whatever entries follow.
\<close>

lemma Send_loop_stops:
  assumes "Send_loop x req recipient sender s credits = (s', Some e)"
  shows "\<exists>n < length credits.
      Send_loop x req recipient sender s (take n credits) = (s', None)
    \<and> Send_loop x req recipient sender s' [credits ! n] = (s', Some e)
    \<and> (\<forall>others. Send_loop x req recipient sender s (take n credits @ credits ! n # others)
          = (s', Some e))
    \<and> (n = 0 \<longrightarrow> s' = s)"
proof -
  obtain n where n: "n < length credits"
    and before: "Send_loop x req recipient sender s (take n credits) = (s', None)"
    and entry: "sendEcocredits x s' (credits ! n) recipient sender = (s', Some e)"
    using Send_loop_failure [OF assms] by blast
  have "Send_loop x req recipient sender s' [credits ! n] = (s', Some e)"
    using entry by simp
  moreover have "\<forall>others. Send_loop x req recipient sender s (take n credits @ credits ! n # others)
      = (s', Some e)"
    using before entry by (simp add: Send_loop_append)
  moreover have "n = 0 \<longrightarrow> s' = s"
    using before by auto
  ultimately show ?thesis using n before by blast
qed

lemma Retire_loop_stops:
  assumes "Retire_loop x req owner s credits = (s', Some e)"
  shows "\<exists>n < length credits.
      Retire_loop x req owner s (take n credits) = (s', None)
    \<and> Retire_loop x req owner s' [credits ! n] = (s', Some e)
    \<and> (\<forall>others. Retire_loop x req owner s (take n credits @ credits ! n # others)
          = (s', Some e))
    \<and> (n = 0 \<longrightarrow> s' = s)"
proof -
  obtain n where n: "n < length credits"
    and before: "Retire_loop x req owner s (take n credits) = (s', None)"
    and entry: "Retire_iteration x req owner s' (credits ! n) = (s', Some e)"
    using Retire_loop_failure [OF assms] by blast
  have "Retire_loop x req owner s' [credits ! n] = (s', Some e)"
    using entry by simp
  moreover have "\<forall>others. Retire_loop x req owner s (take n credits @ credits ! n # others)
      = (s', Some e)"
    using before entry by (simp add: Retire_loop_append)
  moreover have "n = 0 \<longrightarrow> s' = s"
    using before by auto
  ultimately show ?thesis using n before by blast
qed

lemma Cancel_loop_stops:
  assumes "Cancel_loop x req owner s credits = (s', Some e)"
  shows "\<exists>n < length credits.
      Cancel_loop x req owner s (take n credits) = (s', None)
    \<and> Cancel_loop x req owner s' [credits ! n] = (s', Some e)
    \<and> (\<forall>others. Cancel_loop x req owner s (take n credits @ credits ! n # others)
          = (s', Some e))
    \<and> (n = 0 \<longrightarrow> s' = s)"
proof -
  obtain n where n: "n < length credits"
    and before: "Cancel_loop x req owner s (take n credits) = (s', None)"
    and entry: "Cancel_iteration x req owner s' (credits ! n) = (s', Some e)"
    using Cancel_loop_failure [OF assms] by blast
  have "Cancel_loop x req owner s' [credits ! n] = (s', Some e)"
    using entry by simp
  moreover have "\<forall>others. Cancel_loop x req owner s (take n credits @ credits ! n # others)
      = (s', Some e)"
    using before entry by (simp add: Cancel_loop_append)
  moreover have "n = 0 \<longrightarrow> s' = s"
    using before by auto
  ultimately show ?thesis using n before by blast
qed

lemma Send_credits:
  "Send x s (req\<lparr>ms_Credits := credits\<rparr>) =
     Send_loop x req
       (case AccAddressFromBech32 x (ms_Recipient req) of Inl e \<Rightarrow> [] | Inr a \<Rightarrow> a)
       (case AccAddressFromBech32 x (ms_Sender req) of Inl e \<Rightarrow> [] | Inr a \<Rightarrow> a)
       s credits"
  by (simp add: Send_def Let_def Send_loop_request)

lemma Retire_credits:
  "Retire x s (req\<lparr>mr_Credits := credits\<rparr>) =
     Retire_loop x req
       (case AccAddressFromBech32 x (mr_Owner req) of Inl e \<Rightarrow> [] | Inr a \<Rightarrow> a)
       s credits"
  by (simp add: Retire_def Let_def Retire_loop_request)

lemma Cancel_credits:
  "AccAddressFromBech32 x (mc_Owner req) = Inr owner \<Longrightarrow>
     Cancel x s (req\<lparr>mc_Credits := credits\<rparr>) = Cancel_loop x req owner s credits"
  by (simp add: Cancel_def Cancel_loop_request)

text \<open>
  C5, amended: when a call of \<open>Send\<close>, \<open>Retire\<close> or \<open>Cancel\<close> fails with an error, there is
  an entry of the request, the one at position \<open>n\<close>, such that
  \<^item> the call with only the entries before it succeeds, and leaves the very state that the
    failing call leaves: what the earlier entries have written and emitted stays;
  \<^item> the call with that entry alone, from that state, fails with the same error and leaves
    the state as it is: the failing entry writes no record and emits no event;
  \<^item> the call stops there with that error, whatever entries follow the failing one;
  \<^item> when the first entry is the failing one, the state is unchanged.

  \<open>Cancel\<close> may also fail before any entry, on the owner's address, with nothing changed.
\<close>

theorem C5_failing_entry_writes_nothing:
  "(Send x s sreq = (s', Some e) \<longrightarrow>
      (\<exists>n < length (ms_Credits sreq).
         Send x s (sreq\<lparr>ms_Credits := take n (ms_Credits sreq)\<rparr>) = (s', None)
       \<and> Send x s' (sreq\<lparr>ms_Credits := [ms_Credits sreq ! n]\<rparr>) = (s', Some e)
       \<and> (\<forall>others. Send x s
             (sreq\<lparr>ms_Credits := take n (ms_Credits sreq) @ ms_Credits sreq ! n # others\<rparr>)
             = (s', Some e))
       \<and> (n = 0 \<longrightarrow> s' = s)))
   \<and> (Retire x s rreq = (s', Some e) \<longrightarrow>
        (\<exists>n < length (mr_Credits rreq).
           Retire x s (rreq\<lparr>mr_Credits := take n (mr_Credits rreq)\<rparr>) = (s', None)
         \<and> Retire x s' (rreq\<lparr>mr_Credits := [mr_Credits rreq ! n]\<rparr>) = (s', Some e)
         \<and> (\<forall>others. Retire x s
               (rreq\<lparr>mr_Credits := take n (mr_Credits rreq) @ mr_Credits rreq ! n # others\<rparr>)
               = (s', Some e))
         \<and> (n = 0 \<longrightarrow> s' = s)))
   \<and> (Cancel x s creq = (s', Some e) \<longrightarrow>
        (s' = s \<and> AccAddressFromBech32 x (mc_Owner creq) = Inl e)
        \<or> (\<exists>n < length (mc_Credits creq).
              Cancel x s (creq\<lparr>mc_Credits := take n (mc_Credits creq)\<rparr>) = (s', None)
            \<and> Cancel x s' (creq\<lparr>mc_Credits := [mc_Credits creq ! n]\<rparr>) = (s', Some e)
            \<and> (\<forall>others. Cancel x s
                  (creq\<lparr>mc_Credits := take n (mc_Credits creq) @ mc_Credits creq ! n # others\<rparr>)
                  = (s', Some e))
            \<and> (n = 0 \<longrightarrow> s' = s)))"
proof (intro conjI impI)
  assume "Send x s sreq = (s', Some e)"
  then have "Send_loop x sreq
      (case AccAddressFromBech32 x (ms_Recipient sreq) of Inl e \<Rightarrow> [] | Inr a \<Rightarrow> a)
      (case AccAddressFromBech32 x (ms_Sender sreq) of Inl e \<Rightarrow> [] | Inr a \<Rightarrow> a)
      s (ms_Credits sreq) = (s', Some e)"
    by (simp add: Send_def Let_def)
  from Send_loop_stops [OF this]
  show "\<exists>n < length (ms_Credits sreq).
      Send x s (sreq\<lparr>ms_Credits := take n (ms_Credits sreq)\<rparr>) = (s', None)
    \<and> Send x s' (sreq\<lparr>ms_Credits := [ms_Credits sreq ! n]\<rparr>) = (s', Some e)
    \<and> (\<forall>others. Send x s
          (sreq\<lparr>ms_Credits := take n (ms_Credits sreq) @ ms_Credits sreq ! n # others\<rparr>)
          = (s', Some e))
    \<and> (n = 0 \<longrightarrow> s' = s)"
    unfolding Send_credits .
next
  assume "Retire x s rreq = (s', Some e)"
  then have "Retire_loop x rreq
      (case AccAddressFromBech32 x (mr_Owner rreq) of Inl e \<Rightarrow> [] | Inr a \<Rightarrow> a)
      s (mr_Credits rreq) = (s', Some e)"
    by (simp add: Retire_def Let_def)
  from Retire_loop_stops [OF this]
  show "\<exists>n < length (mr_Credits rreq).
      Retire x s (rreq\<lparr>mr_Credits := take n (mr_Credits rreq)\<rparr>) = (s', None)
    \<and> Retire x s' (rreq\<lparr>mr_Credits := [mr_Credits rreq ! n]\<rparr>) = (s', Some e)
    \<and> (\<forall>others. Retire x s
          (rreq\<lparr>mr_Credits := take n (mr_Credits rreq) @ mr_Credits rreq ! n # others\<rparr>)
          = (s', Some e))
    \<and> (n = 0 \<longrightarrow> s' = s)"
    unfolding Retire_credits .
next
  assume fail: "Cancel x s creq = (s', Some e)"
  show "(s' = s \<and> AccAddressFromBech32 x (mc_Owner creq) = Inl e)
      \<or> (\<exists>n < length (mc_Credits creq).
            Cancel x s (creq\<lparr>mc_Credits := take n (mc_Credits creq)\<rparr>) = (s', None)
          \<and> Cancel x s' (creq\<lparr>mc_Credits := [mc_Credits creq ! n]\<rparr>) = (s', Some e)
          \<and> (\<forall>others. Cancel x s
                (creq\<lparr>mc_Credits := take n (mc_Credits creq) @ mc_Credits creq ! n # others\<rparr>)
                = (s', Some e))
          \<and> (n = 0 \<longrightarrow> s' = s))"
  proof (cases "AccAddressFromBech32 x (mc_Owner creq)")
    case (Inl e1)
    then show ?thesis using fail by (simp add: Cancel_def)
  next
    case (Inr owner)
    then have "Cancel_loop x creq owner s (mc_Credits creq) = (s', Some e)"
      using fail by (simp add: Cancel_def)
    from Cancel_loop_stops [OF this]
    have "\<exists>n < length (mc_Credits creq).
        Cancel x s (creq\<lparr>mc_Credits := take n (mc_Credits creq)\<rparr>) = (s', None)
      \<and> Cancel x s' (creq\<lparr>mc_Credits := [mc_Credits creq ! n]\<rparr>) = (s', Some e)
      \<and> (\<forall>others. Cancel x s
            (creq\<lparr>mc_Credits := take n (mc_Credits creq) @ mc_Credits creq ! n # others\<rparr>)
            = (s', Some e))
      \<and> (n = 0 \<longrightarrow> s' = s)"
      unfolding Cancel_credits [OF Inr] .
    then show ?thesis by blast
  qed
qed

theorem C5_witness:
  "(\<exists>n < length [ex_send ''30.00'' ''10.00'', ex_send ''500'' ''0''].
      Send ex_externals
        (ex_state [ex_supply ''100.00'' ''0'' ''0''] [ex_balance ''alice'' ''100.00'' ''0'' []])
        \<lparr>ms_Sender = ''alice'', ms_Recipient = ''bob'',
         ms_Credits = take n [ex_send ''30.00'' ''10.00'', ex_send ''500'' ''0'']\<rparr>
      = ((ex_state [ex_supply ''90.00'' ''10.00'' ''0'']
            [ex_balance ''alice'' ''60.00'' ''0'' [], ex_balance ''bob'' ''30.00'' ''10.00'' []])
         \<lparr>events := [EventRetire ''bob'' ''C01-001'' ''10.00'' ''US'',
                     EventTransfer ''alice'' ''bob'' ''C01-001'' ''30.00'' ''10.00''],
           gas := 10\<rparr>, None)
    \<and> Send ex_externals
        ((ex_state [ex_supply ''90.00'' ''10.00'' ''0'']
            [ex_balance ''alice'' ''60.00'' ''0'' [], ex_balance ''bob'' ''30.00'' ''10.00'' []])
         \<lparr>events := [EventRetire ''bob'' ''C01-001'' ''10.00'' ''US'',
                     EventTransfer ''alice'' ''bob'' ''C01-001'' ''30.00'' ''10.00''],
           gas := 10\<rparr>)
        \<lparr>ms_Sender = ''alice'', ms_Recipient = ''bob'',
         ms_Credits = [[ex_send ''30.00'' ''10.00'', ex_send ''500'' ''0''] ! n]\<rparr>
      = ((ex_state [ex_supply ''90.00'' ''10.00'' ''0'']
            [ex_balance ''alice'' ''60.00'' ''0'' [], ex_balance ''bob'' ''30.00'' ''10.00'' []])
         \<lparr>events := [EventRetire ''bob'' ''C01-001'' ''10.00'' ''US'',
                     EventTransfer ''alice'' ''bob'' ''C01-001'' ''30.00'' ''10.00''],
           gas := 10\<rparr>, Some InsufficientBalance))
   \<and> (\<exists>n < length [ex_credits ''5.5'', ex_credits ''500''].
      Retire ex_externals
        (ex_state [ex_supply ''100.00'' ''0'' ''0''] [ex_balance ''alice'' ''100.00'' ''0'' []])
        \<lparr>mr_Owner = ''alice'', mr_Credits = take n [ex_credits ''5.5'', ex_credits ''500''],
         mr_Jurisdiction = ''US''\<rparr>
      = ((ex_state [ex_supply ''94.50'' ''5.5'' ''0''] [ex_balance ''alice'' ''94.50'' ''5.5'' []])
         \<lparr>events := [EventRetire ''alice'' ''C01-001'' ''5.5'' ''US''], gas := 10\<rparr>, None)
    \<and> Retire ex_externals
        ((ex_state [ex_supply ''94.50'' ''5.5'' ''0''] [ex_balance ''alice'' ''94.50'' ''5.5'' []])
         \<lparr>events := [EventRetire ''alice'' ''C01-001'' ''5.5'' ''US''], gas := 10\<rparr>)
        \<lparr>mr_Owner = ''alice'', mr_Credits = [[ex_credits ''5.5'', ex_credits ''500''] ! n],
         mr_Jurisdiction = ''US''\<rparr>
      = ((ex_state [ex_supply ''94.50'' ''5.5'' ''0''] [ex_balance ''alice'' ''94.50'' ''5.5'' []])
         \<lparr>events := [EventRetire ''alice'' ''C01-001'' ''5.5'' ''US''], gas := 10\<rparr>,
         Some InsufficientBalance))
   \<and> (\<exists>n < length [ex_credits ''5.5'', ex_credits ''500''].
      Cancel ex_externals
        (ex_state [ex_supply ''100.00'' ''0'' ''0''] [ex_balance ''alice'' ''100.00'' ''0'' []])
        \<lparr>mc_Owner = ''alice'', mc_Credits = take n [ex_credits ''5.5'', ex_credits ''500''],
         mc_Reason = ''reason''\<rparr>
      = ((ex_state [ex_supply ''94.50'' ''0'' ''5.5''] [ex_balance ''alice'' ''94.50'' ''0'' []])
         \<lparr>events := [EventCancel ''alice'' ''C01-001'' ''5.5'' ''reason''], gas := 10\<rparr>, None)
    \<and> Cancel ex_externals
        ((ex_state [ex_supply ''94.50'' ''0'' ''5.5''] [ex_balance ''alice'' ''94.50'' ''0'' []])
         \<lparr>events := [EventCancel ''alice'' ''C01-001'' ''5.5'' ''reason''], gas := 10\<rparr>)
        \<lparr>mc_Owner = ''alice'', mc_Credits = [[ex_credits ''5.5'', ex_credits ''500''] ! n],
         mc_Reason = ''reason''\<rparr>
      = ((ex_state [ex_supply ''94.50'' ''0'' ''5.5''] [ex_balance ''alice'' ''94.50'' ''0'' []])
         \<lparr>events := [EventCancel ''alice'' ''C01-001'' ''5.5'' ''reason''], gas := 10\<rparr>,
         Some InsufficientBalance))"
proof (intro conjI)
  let ?s = "ex_state [ex_supply ''100.00'' ''0'' ''0''] [ex_balance ''alice'' ''100.00'' ''0'' []]"
  let ?s1 = "(ex_state [ex_supply ''90.00'' ''10.00'' ''0'']
        [ex_balance ''alice'' ''60.00'' ''0'' [], ex_balance ''bob'' ''30.00'' ''10.00'' []])
      \<lparr>events := [EventRetire ''bob'' ''C01-001'' ''10.00'' ''US'',
                  EventTransfer ''alice'' ''bob'' ''C01-001'' ''30.00'' ''10.00''],
        gas := 10\<rparr>"
  let ?req = "\<lparr>ms_Sender = ''alice'', ms_Recipient = ''bob'',
      ms_Credits = [ex_send ''30.00'' ''10.00'', ex_send ''500'' ''0'']\<rparr>"
  have fail: "Send ex_externals ?s ?req = (?s1, Some InsufficientBalance)"
    by (simp add: loop_defs send_defs ex_defs store_defs parse_defs print_defs arith_defs)
  have "\<exists>n < length (ms_Credits ?req).
      Send ex_externals ?s (?req\<lparr>ms_Credits := take n (ms_Credits ?req)\<rparr>) = (?s1, None)
    \<and> Send ex_externals ?s1 (?req\<lparr>ms_Credits := [ms_Credits ?req ! n]\<rparr>)
        = (?s1, Some InsufficientBalance)"
    using C5_failing_entry_writes_nothing
      [where x = ex_externals and s = ?s and sreq = ?req and s' = ?s1
        and e = InsufficientBalance]
      fail
    by blast
  then show "\<exists>n < length [ex_send ''30.00'' ''10.00'', ex_send ''500'' ''0''].
      Send ex_externals ?s
        \<lparr>ms_Sender = ''alice'', ms_Recipient = ''bob'',
         ms_Credits = take n [ex_send ''30.00'' ''10.00'', ex_send ''500'' ''0'']\<rparr>
      = (?s1, None)
    \<and> Send ex_externals ?s1
        \<lparr>ms_Sender = ''alice'', ms_Recipient = ''bob'',
         ms_Credits = [[ex_send ''30.00'' ''10.00'', ex_send ''500'' ''0''] ! n]\<rparr>
      = (?s1, Some InsufficientBalance)"
    by simp
next
  let ?s = "ex_state [ex_supply ''100.00'' ''0'' ''0''] [ex_balance ''alice'' ''100.00'' ''0'' []]"
  let ?s1 = "(ex_state [ex_supply ''94.50'' ''5.5'' ''0''] [ex_balance ''alice'' ''94.50'' ''5.5'' []])
      \<lparr>events := [EventRetire ''alice'' ''C01-001'' ''5.5'' ''US''], gas := 10\<rparr>"
  let ?req = "\<lparr>mr_Owner = ''alice'', mr_Credits = [ex_credits ''5.5'', ex_credits ''500''],
      mr_Jurisdiction = ''US''\<rparr>"
  have fail: "Retire ex_externals ?s ?req = (?s1, Some InsufficientBalance)"
    by (simp add: loop_defs ex_defs store_defs parse_defs print_defs arith_defs Let_def)
  have "\<exists>n < length (mr_Credits ?req).
      Retire ex_externals ?s (?req\<lparr>mr_Credits := take n (mr_Credits ?req)\<rparr>) = (?s1, None)
    \<and> Retire ex_externals ?s1 (?req\<lparr>mr_Credits := [mr_Credits ?req ! n]\<rparr>)
        = (?s1, Some InsufficientBalance)"
    using C5_failing_entry_writes_nothing
      [where x = ex_externals and s = ?s and rreq = ?req and s' = ?s1
        and e = InsufficientBalance]
      fail
    by blast
  then show "\<exists>n < length [ex_credits ''5.5'', ex_credits ''500''].
      Retire ex_externals ?s
        \<lparr>mr_Owner = ''alice'', mr_Credits = take n [ex_credits ''5.5'', ex_credits ''500''],
         mr_Jurisdiction = ''US''\<rparr>
      = (?s1, None)
    \<and> Retire ex_externals ?s1
        \<lparr>mr_Owner = ''alice'', mr_Credits = [[ex_credits ''5.5'', ex_credits ''500''] ! n],
         mr_Jurisdiction = ''US''\<rparr>
      = (?s1, Some InsufficientBalance)"
    by simp
next
  let ?s = "ex_state [ex_supply ''100.00'' ''0'' ''0''] [ex_balance ''alice'' ''100.00'' ''0'' []]"
  let ?s1 = "(ex_state [ex_supply ''94.50'' ''0'' ''5.5''] [ex_balance ''alice'' ''94.50'' ''0'' []])
      \<lparr>events := [EventCancel ''alice'' ''C01-001'' ''5.5'' ''reason''], gas := 10\<rparr>"
  let ?req = "\<lparr>mc_Owner = ''alice'', mc_Credits = [ex_credits ''5.5'', ex_credits ''500''],
      mc_Reason = ''reason''\<rparr>"
  have fail: "Cancel ex_externals ?s ?req = (?s1, Some InsufficientBalance)"
    by (simp add: loop_defs ex_defs store_defs parse_defs print_defs arith_defs Let_def)
  have addr: "AccAddressFromBech32 ex_externals (mc_Owner ?req) \<noteq> Inl InsufficientBalance"
    by (simp add: ex_defs)
  have "(?s1 = ?s \<and> AccAddressFromBech32 ex_externals (mc_Owner ?req) = Inl InsufficientBalance)
      \<or> (\<exists>n < length (mc_Credits ?req).
            Cancel ex_externals ?s (?req\<lparr>mc_Credits := take n (mc_Credits ?req)\<rparr>) = (?s1, None)
          \<and> Cancel ex_externals ?s1 (?req\<lparr>mc_Credits := [mc_Credits ?req ! n]\<rparr>)
              = (?s1, Some InsufficientBalance))"
    using C5_failing_entry_writes_nothing
      [where x = ex_externals and s = ?s and creq = ?req and s' = ?s1
        and e = InsufficientBalance]
      fail
    by blast
  then have "\<exists>n < length (mc_Credits ?req).
      Cancel ex_externals ?s (?req\<lparr>mc_Credits := take n (mc_Credits ?req)\<rparr>) = (?s1, None)
    \<and> Cancel ex_externals ?s1 (?req\<lparr>mc_Credits := [mc_Credits ?req ! n]\<rparr>)
        = (?s1, Some InsufficientBalance)"
    using addr by blast
  then show "\<exists>n < length [ex_credits ''5.5'', ex_credits ''500''].
      Cancel ex_externals ?s
        \<lparr>mc_Owner = ''alice'', mc_Credits = take n [ex_credits ''5.5'', ex_credits ''500''],
         mc_Reason = ''reason''\<rparr>
      = (?s1, None)
    \<and> Cancel ex_externals ?s1
        \<lparr>mc_Owner = ''alice'', mc_Credits = [[ex_credits ''5.5'', ex_credits ''500''] ! n],
         mc_Reason = ''reason''\<rparr>
      = (?s1, Some InsufficientBalance)"
    by simp
qed

section \<open>Validation of a batch: the dates\<close>

lemma Compare_is_1: "Compare e s = 1 \<longleftrightarrow> date_after e s"
  by (auto simp: Compare_def date_after_def)

lemma date_after_instant:
  "valid_nanos e \<Longrightarrow> valid_nanos s \<Longrightarrow> date_after e s \<longleftrightarrow> instant s < instant e"
  by (auto simp: date_after_def instant_def valid_nanos_def)

text \<open>
  C10, as stated: for every batch with both dates present, \<open>Validate\<close> returns no error if
  and only if the end date is after the start date. The statement fails from right to left:
  a batch whose project key is zero is rejected although its end date is after its start
  date.
\<close>

theorem C10_counterexample:
  "b_StartDate (ex_batch 0 100 200) = Some \<lparr>Seconds = 100, Nanos = 0\<rparr>
   \<and> b_EndDate (ex_batch 0 100 200) = Some \<lparr>Seconds = 200, Nanos = 0\<rparr>
   \<and> date_after \<lparr>Seconds = 200, Nanos = 0\<rparr> \<lparr>Seconds = 100, Nanos = 0\<rparr>
   \<and> Batch_Validate ex_externals (ex_batch 0 100 200)
       = Some (ErrInvalidRequest ''project key cannot be zero'')"
  by (simp add: ex_batch_def date_after_def Batch_Validate_def ex_externals_def
      ex_denom_check_def)

text \<open>
  C10, amended: a batch that \<open>Validate\<close> accepts has both dates, the end date strictly
  after the start date (equal dates are rejected); and for a batch with both dates whose
  denom, project key and issuer pass their own checks, \<open>Validate\<close> returns no error if and
  only if the end date is strictly after the start date.
\<close>

theorem C10_Batch_Validate_dates:
  "(Batch_Validate x b = None \<longrightarrow>
      (\<exists>sd ed. b_StartDate b = Some sd \<and> b_EndDate b = Some ed \<and> date_after ed sd \<and> ed \<noteq> sd))
   \<and> (ValidateBatchDenom x (b_Denom b) = None \<longrightarrow> b_ProjectKey b \<noteq> 0 \<longrightarrow>
        AccAddressFromBech32 x (AccAddressString x (b_Issuer b)) = Inr a \<longrightarrow>
        b_StartDate b = Some sd \<longrightarrow> b_EndDate b = Some ed \<longrightarrow>
        (Batch_Validate x b = None \<longleftrightarrow> date_after ed sd))"
proof (intro conjI impI)
  assume ok: "Batch_Validate x b = None"
  then obtain sd ed where d: "b_StartDate b = Some sd" "b_EndDate b = Some ed"
    by (auto simp: Batch_Validate_def split: option.splits if_splits)
  with ok have "Compare ed sd = 1"
    by (auto simp: Batch_Validate_def split: option.splits if_splits)
  then have "date_after ed sd" by (simp add: Compare_is_1)
  moreover from this have "ed \<noteq> sd" by (auto simp: date_after_def)
  ultimately show "\<exists>sd ed. b_StartDate b = Some sd \<and> b_EndDate b = Some ed
      \<and> date_after ed sd \<and> ed \<noteq> sd"
    using d by blast
next
  assume "ValidateBatchDenom x (b_Denom b) = None" "b_ProjectKey b \<noteq> 0"
    "AccAddressFromBech32 x (AccAddressString x (b_Issuer b)) = Inr a"
    "b_StartDate b = Some sd" "b_EndDate b = Some ed"
  then show "Batch_Validate x b = None \<longleftrightarrow> date_after ed sd"
    by (simp add: Batch_Validate_def Compare_is_1)
qed

theorem C10_witness:
  "Batch_Validate ex_externals (ex_batch 1 100 200) = None
   \<and> ValidateBatchDenom ex_externals (b_Denom (ex_batch 1 100 200)) = None
   \<and> b_ProjectKey (ex_batch 1 100 200) \<noteq> 0
   \<and> AccAddressFromBech32 ex_externals (AccAddressString ex_externals (b_Issuer (ex_batch 1 100 200)))
       = Inr ''issuer''
   \<and> b_StartDate (ex_batch 1 100 200) = Some \<lparr>Seconds = 100, Nanos = 0\<rparr>
   \<and> b_EndDate (ex_batch 1 100 200) = Some \<lparr>Seconds = 200, Nanos = 0\<rparr>
   \<and> date_after \<lparr>Seconds = 200, Nanos = 0\<rparr> \<lparr>Seconds = 100, Nanos = 0\<rparr>
   \<and> Batch_Validate ex_externals (ex_batch 1 100 100)
       = Some (ErrInvalidRequest
           ''the batch end date must be the same as or after the batch start date'')"
proof -
  have h: "ValidateBatchDenom ex_externals (b_Denom (ex_batch 1 100 200)) = None"
    "b_ProjectKey (ex_batch 1 100 200) \<noteq> 0"
    "AccAddressFromBech32 ex_externals
       (AccAddressString ex_externals (b_Issuer (ex_batch 1 100 200))) = Inr ''issuer''"
    "b_StartDate (ex_batch 1 100 200) = Some \<lparr>Seconds = 100, Nanos = 0\<rparr>"
    "b_EndDate (ex_batch 1 100 200) = Some \<lparr>Seconds = 200, Nanos = 0\<rparr>"
    by (simp_all add: ex_batch_def ex_externals_def ex_denom_check_def ex_decode_def
        ex_encode_def)
  have after: "date_after \<lparr>Seconds = 200, Nanos = 0\<rparr> \<lparr>Seconds = 100, Nanos = 0\<rparr>"
    by (simp add: date_after_def)
  have ok: "Batch_Validate ex_externals (ex_batch 1 100 200) = None"
    using C10_Batch_Validate_dates [of ex_externals "ex_batch 1 100 200" "''issuer''"
        "\<lparr>Seconds = 100, Nanos = 0\<rparr>" "\<lparr>Seconds = 200, Nanos = 0\<rparr>"] h after
    by blast
  have eq: "Batch_Validate ex_externals (ex_batch 1 100 100)
      = Some (ErrInvalidRequest
          ''the batch end date must be the same as or after the batch start date'')"
    by (simp add: ex_batch_def Batch_Validate_def ex_externals_def ex_denom_check_def
        Compare_def)
  show ?thesis using h after ok eq by simp
qed

section \<open>Genesis validation: the comparison of the supplies\<close>

text \<open>What \<open>validateSupply\<close> accepts: both maps empty or both non-empty, and every key of the
  calculated supplies present among the declared supplies with an equal amount. Nothing
  is asked of a key that only the declared supplies hold.\<close>

lemma validateSupply_loop_None:
  "validateSupply_loop calculated declared = None \<longleftrightarrow>
     (\<forall>(k, cs) \<in> set calculated. \<exists>s. map_of declared k = Some s \<and> Cmp s cs = EqualTo)"
  by (induction calculated declared rule: validateSupply_loop.induct) (auto split: option.splits)

lemma validateSupply_None:
  "validateSupply calculated declared = None \<longleftrightarrow>
     (calculated = [] \<longleftrightarrow> declared = [])
     \<and> (\<forall>(k, cs) \<in> set calculated. \<exists>s. map_of declared k = Some s \<and> Cmp s cs = EqualTo)"
  by (cases calculated; cases declared) (auto simp: validateSupply_def validateSupply_loop_None)

text \<open>
  C6 at the failing input: a genesis with the supply records of batch 1 (100 tradable) and
  of batch 2 (50 tradable) and with one balance record, 100 tradable of batch 1. The
  declared supplies hold batch 1 with 100 and batch 2 with 50, the calculated supplies hold
  batch 1 with 100 only. Batch 2 is present on the declared side with a non-zero amount
  and absent on the calculated side, and neither \<open>validateSupply\<close> nor \<open>ValidateGenesis\<close>
  returns an error: the loop of \<open>validateSupply\<close> visits the keys of the calculated
  supplies only. (The genesis of scenario D, a supply record and no balance at all, is
  rejected by the check made before the loop.)
\<close>

theorem C6_declared_only_key_accepted:
  "validateSupply [(1, \<lparr>coeff = 100, scale = 0\<rparr>)]
     [(1, \<lparr>coeff = 100, scale = 0\<rparr>), (2, \<lparr>coeff = 50, scale = 0\<rparr>)] = None
   \<and> map_of [(1, \<lparr>coeff = 100, scale = 0\<rparr>)] (2::nat) = None
   \<and> \<not> IsZero \<lparr>coeff = 50, scale = 0\<rparr>
   \<and> ValidateGenesis
         (ex_genesis [ex_gsupply 1 ''100'' ''0'', ex_gsupply 2 ''50'' ''0'']
            [ex_gbalance 1 ''alice'' ''100'' ''0'' []]) = None
   \<and> ValidateGenesis (ex_genesis [ex_gsupply 1 ''100'' ''0''] []) = Some SupplyGivenNoBalances"
  by (simp add: genesis_defs parse_defs arith_defs)

end
